theory Spec2Isabelle
  imports Complex_Main
begin

text \<open>
  A model of \<open>trunk/Integrator/src/CPodesIntegratorRep.cpp\<close>: the four callbacks of
  \<open>CPodesSystemImpl\<close> (the State Bridge), \<open>createInterpolatedState\<close> and the step
  controller \<open>stepTo\<close>. The mutable members of the integrator object are the fields of
  a record that each function takes and returns; the solver, the simulated system and
  the methods of the base class, which are declared elsewhere, are parameters. An
  exception is a value of the result, and the \<open>while (true)\<close> loop of \<open>stepTo\<close> is a
  partial function.
\<close>

section \<open>Numbers, vectors and snapshots\<close>

text \<open>
  The C++ type \<open>Real\<close> is a floating-point number. The step controller only compares
  times and copies them, so a time is modelled as a real number or the one special
  value the code itself introduces, \<open>Infinity\<close> (line 219). Comparisons are those of
  the extended real line: every finite time is below \<open>Infinity\<close>. Rounding and NaN
  are outside the model.
\<close>

datatype Real = Finite real | Infinity

instantiation Real :: linorder
begin

fun less_eq_Real :: "Real \<Rightarrow> Real \<Rightarrow> bool" where
  "less_eq_Real (Finite a) (Finite b) = (a \<le> b)"
| "less_eq_Real (Finite a) Infinity = True"
| "less_eq_Real Infinity (Finite b) = False"
| "less_eq_Real Infinity Infinity = True"

fun less_Real :: "Real \<Rightarrow> Real \<Rightarrow> bool" where
  "less_Real (Finite a) (Finite b) = (a < b)"
| "less_Real (Finite a) Infinity = True"
| "less_Real Infinity b = False"

instance
proof
  fix x y z :: Real
  show "(x < y) = (x \<le> y \<and> \<not> y \<le> x)"
    by (cases x; cases y) auto
  show "x \<le> x"
    by (cases x) auto
  show "x \<le> y \<Longrightarrow> y \<le> z \<Longrightarrow> x \<le> z"
    by (cases x; cases y; cases z) auto
  show "x \<le> y \<Longrightarrow> y \<le> x \<Longrightarrow> x = y"
    by (cases x; cases y) auto
  show "x \<le> y \<or> y \<le> x"
    by (cases x; cases y) auto
qed

end

type_synonym Vector = "real list"

text \<open>
  A \<open>State\<close> snapshot: its time, its continuous-state vector \<open>Y\<close>, its discrete
  content (opaque, of type \<open>'d\<close>), the number of event triggers, and the derived
  quantities that realizing the snapshot fills in (\<open>getYDot\<close>, \<open>getYErr\<close>,
  \<open>getEvents\<close>).
\<close>

record 'd State =
  Time :: Real
  Y :: Vector
  discrete :: 'd
  NEvents :: nat
  YDot :: Vector
  YErr :: Vector
  Events :: Vector

datatype Stage = Model | Position | Velocity | Acceleration | Report

text \<open>
  The simulated system, as the callbacks use it. Each operation may raise an exception,
  which is the result \<open>None\<close>. \<open>sys_realize\<close> returns the snapshot with its derived
  quantities computed. \<open>system.project(advanced, tol, yUnitWeights, unitTolerances, err)\<close>
  takes the snapshot and the error estimate by reference: \<open>sys_project\<close> gives the
  projected snapshot, or \<open>None\<close> when the call raises, and in both cases the error
  estimate as the call leaves it (what it wrote before raising stays written).
\<close>

record 'd System =
  sys_realize :: "'d State \<Rightarrow> Stage \<Rightarrow> 'd State option"
  sys_calcYUnitWeights :: "'d State \<Rightarrow> Vector option"
  sys_calcYErrUnitTolerances :: "'d State \<Rightarrow> Vector option"
  sys_project :: "'d State \<Rightarrow> Real \<Rightarrow> Vector \<Rightarrow> Vector \<Rightarrow> Vector \<Rightarrow> 'd State option \<times> Vector"

section \<open>The external solver\<close>

datatype StepMode = Normal | OneStep | NormalTstop | OneStepTstop

text \<open>
  The class \<open>CPodes\<close> is declared outside this file. Its result codes are taken as
  parameters (the fields \<open>Success\<close> to \<open>RootReturn\<close>), and so are the three
  operations the step controller calls, over a solver state of type \<open>'s\<close> that holds
  everything the solver remembers, the registered callback object included. An output
  array is allocated by the caller and filled by the solver; the operation gives the
  entry written at each index.
  \<^item> \<open>step s tout mode\<close> is \<open>cpodes->step(tout, &tret, yout, ypout, mode)\<close>: it gives
    the result code, \<open>tret\<close>, the entries of \<open>yout\<close> and the solver's next state
    (\<open>ypout\<close> is never read);
  \<^item> \<open>getDky s t k i\<close> is entry \<open>i\<close> of \<open>yout\<close> after \<open>cpodes->getDky(t, k, yout)\<close>;
  \<^item> \<open>getRootInfo s i\<close> is \<open>eventFlags[i]\<close> after \<open>cpodes->getRootInfo(eventFlags)\<close>.
\<close>

record 's CPodes =
  Success :: int
  RecoverableError :: int
  TooMuchWork :: int
  TstopReturn :: int
  RootReturn :: int
  step :: "'s \<Rightarrow> Real \<Rightarrow> StepMode \<Rightarrow> int \<times> Real \<times> (nat \<Rightarrow> real) \<times> 's"
  getDky :: "'s \<Rightarrow> Real \<Rightarrow> nat \<Rightarrow> nat \<Rightarrow> real"
  getRootInfo :: "'s \<Rightarrow> nat \<Rightarrow> int"

section \<open>The integrator object\<close>

datatype SuccessfulStepStatus =
    ReachedReportTime
  | ReachedEventTrigger
  | ReachedScheduledEvent
  | TimeHasAdvanced
  | ReachedStepLimit
  | EndOfSimulation
  | StartOfContinuousInterval

datatype StepCommunicationStatus =
    InvalidStepCommunicationStatus
  | StepHasBeenReturnedNoEvent
  | StepHasBeenReturnedWithEvent
  | FinalTimeHasBeenReturned

datatype TerminationReason = InvalidTerminationReason | ReachedFinalTime

datatype EventTrigger = AnySignChange

text \<open>The arguments of the last \<open>setTriggeredEvents\<close> call.\<close>

record TriggeredEvents =
  tLow :: Real
  tHigh :: Real
  eventIds :: "int list"
  eventTimes :: "Real list"
  eventTransitions :: "EventTrigger list"

text \<open>
  The members of \<open>CPodesIntegratorRep\<close> and of its base class \<open>IntegratorRep\<close> that
  the code of this file reads or writes. The base class is declared outside this file;
  its accessors and setters (\<open>getAdvancedState\<close>, \<open>updAdvancedState\<close>,
  \<open>setUseInterpolatedState\<close>, \<open>setStepCommunicationStatus\<close>, \<open>setTriggeredEvents\<close>,
  \<open>getPreviousTime\<close>, \<open>getConstraintToleranceInUse\<close>, ...) read and write the field of
  the same name.
\<close>

record ('d, 's) CPodesIntegratorRep =
  advancedState :: "'d State"
  interpolatedState :: "'d State"
  useInterpolatedState :: bool
  startOfContinuousInterval :: bool
  stepCommunicationStatus :: StepCommunicationStatus
  terminationReason :: TerminationReason
  triggeredEvents :: "TriggeredEvents option"
  previousTime :: Real
  constraintToleranceInUse :: Real
  userFinalTime :: Real
  userReturnEveryInternalStep :: int
  cpodes :: 's
  initialized :: bool
  pendingReturnCode :: int
  previousStartTime :: Real
  previousTimeReturned :: Real
  savedY :: Vector

section \<open>The State Bridge: \<open>CPodesSystemImpl\<close>\<close>

text \<open>
  Each callback is a function of the integrator object it holds a reference to
  (\<open>integ\<close>), the system, and its arguments; it returns the integrator object as the
  callback leaves it, the code it returns to the solver, and its output arguments (as
  passed in when the callback returns before assigning them). \<open>State advanced =
  integ.updAdvancedState()\<close> copy-constructs a local snapshot; the assignments that
  follow write that local.
\<close>

definition explicitODE ::
  "'s CPodes \<Rightarrow> 'd System \<Rightarrow> ('d, 's) CPodesIntegratorRep \<Rightarrow> Real \<Rightarrow> Vector \<Rightarrow> Vector
     \<Rightarrow> ('d, 's) CPodesIntegratorRep \<times> int \<times> Vector" where
  "explicitODE cp system integ t y ydot =
     (let advanced = advancedState integ;
          advanced = advanced\<lparr>Y := y\<rparr>;
          advanced = advanced\<lparr>Time := t\<rparr>
      in case sys_realize system advanced Acceleration of
           None \<Rightarrow> (integ, RecoverableError cp, ydot)
         | Some advanced \<Rightarrow> (integ, Success cp, YDot advanced))"

definition constraint ::
  "'s CPodes \<Rightarrow> 'd System \<Rightarrow> ('d, 's) CPodesIntegratorRep \<Rightarrow> Real \<Rightarrow> Vector \<Rightarrow> Vector
     \<Rightarrow> ('d, 's) CPodesIntegratorRep \<times> int \<times> Vector" where
  "constraint cp system integ t y yerr =
     (let advanced = advancedState integ;
          advanced = advanced\<lparr>Y := y\<rparr>;
          advanced = advanced\<lparr>Time := t\<rparr>
      in case sys_realize system advanced Velocity of
           None \<Rightarrow> (integ, RecoverableError cp, yerr)
         | Some advanced \<Rightarrow> (integ, Success cp, YErr advanced))"

text \<open>
  The \<open>try\<close> block of \<open>project\<close> (lines 79 to 86) is a sequence of four system calls,
  each of which may raise; the \<open>catch\<close> takes the first that does. The outputs are
  \<open>ycorr\<close> and \<open>err\<close>: \<open>ycorr\<close> is assigned after the block only, and \<open>err\<close> is what
  \<open>system.project\<close> leaves in it, also when that call raises. \<open>advanced.getY()-y\<close> is
  the difference entry by entry, in exact arithmetic; the two vectors have one length
  whenever the projection keeps the length of \<open>Y\<close>, and the difference is taken over
  the common indices where it does not.
\<close>

definition project ::
  "'s CPodes \<Rightarrow> 'd System \<Rightarrow> ('d, 's) CPodesIntegratorRep \<Rightarrow> Real \<Rightarrow> Vector \<Rightarrow> Vector \<Rightarrow> Real
     \<Rightarrow> Vector \<Rightarrow> ('d, 's) CPodesIntegratorRep \<times> int \<times> Vector \<times> Vector" where
  "project cp system integ t y ycorr epsProj err =
     (let advanced = advancedState integ;
          advanced = advanced\<lparr>Y := y\<rparr>;
          advanced = advanced\<lparr>Time := t\<rparr>;
          tol = constraintToleranceInUse integ
      in case sys_realize system advanced Position of
           None \<Rightarrow> (integ, RecoverableError cp, ycorr, err)
         | Some advanced \<Rightarrow>
             (case sys_calcYUnitWeights system advanced of
                None \<Rightarrow> (integ, RecoverableError cp, ycorr, err)
              | Some yUnitWeights \<Rightarrow>
                  (case sys_calcYErrUnitTolerances system advanced of
                     None \<Rightarrow> (integ, RecoverableError cp, ycorr, err)
                   | Some unitTolerances \<Rightarrow>
                       (case sys_project system advanced tol yUnitWeights unitTolerances err of
                          (None, err) \<Rightarrow> (integ, RecoverableError cp, ycorr, err)
                        | (Some advanced, err) \<Rightarrow>
                            (integ, Success cp, map2 (-) (Y advanced) y, err)))))"

definition root_events ::
  "'s CPodes \<Rightarrow> 'd System \<Rightarrow> ('d, 's) CPodesIntegratorRep \<Rightarrow> Real \<Rightarrow> Vector \<Rightarrow> Vector \<Rightarrow> Vector
     \<Rightarrow> ('d, 's) CPodesIntegratorRep \<times> int \<times> Vector" where
  "root_events cp system integ t y yp gout =
     (let advanced = advancedState integ;
          advanced = advanced\<lparr>Y := y\<rparr>;
          advanced = advanced\<lparr>Time := t\<rparr>
      in case sys_realize system advanced Acceleration of
           None \<Rightarrow> (integ, RecoverableError cp, gout)
         | Some advanced \<Rightarrow> (integ, Success cp, Events advanced))"

section \<open>The Step Controller\<close>

text \<open>
  Two methods of the base class \<open>IntegratorRep\<close> that \<open>stepTo\<close> calls are declared
  outside this file. They are parameters of the model:
  \<^item> \<open>derivedQuantities\<close>: the derivative, constraint-error and event-trigger vectors
    that realizing a snapshot computes for it;
  \<^item> \<open>findEventIds\<close>: \<open>findEventIds(eventIds)\<close>, which rewrites the list of trigger
    indices in place.
\<close>

record 'd IntegratorRep =
  derivedQuantities :: "'d State \<Rightarrow> Vector \<times> Vector \<times> Vector"
  findEventIds :: "int list \<Rightarrow> int list"

text \<open>
  Modelled from the spec: \<open>IntegratorRep::realizeStateDerivatives\<close> is not in this file.
  The spec's step (c) says that it forces "the stage needed to populate derived
  quantities (derivative, error estimate, event-trigger vector)". Its argument is a
  \<open>const State&\<close>: time, vector and discrete content stay as they are. The spec gives
  the step no failure outcome, and the model gives it none.
\<close>

definition realizeStateDerivatives :: "'d IntegratorRep \<Rightarrow> 'd State \<Rightarrow> 'd State" where
  "realizeStateDerivatives base s =
     (case derivedQuantities base s of
        (ydot, yerr, events) \<Rightarrow> s\<lparr>YDot := ydot, YErr := yerr, Events := events\<rparr>)"

text \<open>
  Modelled from the spec: \<open>IntegratorRep::getState\<close> is not in this file. The spec's
  data model says of the interpolated-state flag that it "indicates whether the caller
  should currently read this snapshot instead of the Advanced State".
\<close>

definition getState :: "('d, 's) CPodesIntegratorRep \<Rightarrow> 'd State" where
  "getState integ =
     (if useInterpolatedState integ then interpolatedState integ else advancedState integ)"

definition createInterpolatedState ::
  "'s CPodes \<Rightarrow> Real \<Rightarrow> ('d, 's) CPodesIntegratorRep \<Rightarrow> ('d, 's) CPodesIntegratorRep" where
  "createInterpolatedState cp t integ =
     (let advanced = advancedState integ;
          integ = integ\<lparr>interpolatedState := advanced\<rparr>;
          yout = map (getDky cp (cpodes integ) t 0) [0..<length (Y advanced)];
          integ = integ\<lparr>interpolatedState := (interpolatedState integ)\<lparr>Y := yout\<rparr>\<rparr>;
          integ = integ\<lparr>interpolatedState := (interpolatedState integ)\<lparr>Time := t\<rparr>\<rparr>
      in integ)"

datatype Exception = StepFailed Real string

text \<open>
  How a call of \<open>stepTo\<close> ends: it returns a status, it throws, or one of its three
  \<open>assert\<close>s fails. The integrator object is given as the call leaves it.
\<close>

datatype 'i StepToResult =
    Returned SuccessfulStepStatus 'i
  | Threw Exception 'i
  | AssertionFailed

text \<open>One pass through the body of \<open>while (true)\<close>: go round again, or leave the call.\<close>

datatype 'i LoopStep = Continue 'i | Exit "'i StepToResult"

text \<open>
  The three assertions at the head of \<open>stepTo\<close> (lines 207 to 209). \<open>assert\<close> is a
  macro that the build switch \<open>NDEBUG\<close> removes; the switch is a parameter of \<open>stepTo\<close>.
\<close>

definition stepTo_asserts :: "('d, 's) CPodesIntegratorRep \<Rightarrow> Real \<Rightarrow> Real \<Rightarrow> bool" where
  "stepTo_asserts integ reportTime scheduledEventTime =
     (initialized integ
      \<and> reportTime \<ge> previousTime integ
      \<and> (scheduledEventTime \<le> Finite 0 \<or> scheduledEventTime \<ge> Time (getState integ)))"

text \<open>Lines 221 to 233.\<close>

definition stepMode :: "('d, 's) CPodesIntegratorRep \<Rightarrow> StepMode" where
  "stepMode integ =
     (if userFinalTime integ \<noteq> Finite (- 1) then
        (if userReturnEveryInternalStep integ = 1 then OneStepTstop else NormalTstop)
      else
        (if userReturnEveryInternalStep integ = 1 then OneStep else Normal))"

text \<open>
  Lines 238 to 261: a fresh solver step, or the resumption of the pending result; then
  the returned time is committed to the Advanced State. The result is \<open>res\<close>, \<open>tret\<close>
  and the integrator object.
\<close>

definition advance ::
  "'s CPodes \<Rightarrow> 'd IntegratorRep \<Rightarrow> Real \<Rightarrow> StepMode \<Rightarrow> ('d, 's) CPodesIntegratorRep
     \<Rightarrow> int \<times> Real \<times> ('d, 's) CPodesIntegratorRep" where
  "advance cp base tMax mode integ =
     (case
        (if pendingReturnCode integ = - 1 then
           (let integ = integ\<lparr>previousStartTime := Time (advancedState integ)\<rparr>
            in case step cp (cpodes integ) tMax mode of
                 (res, tret, yout, solver) \<Rightarrow>
                   (let yout = map yout [0..<length (Y (advancedState integ))];
                        integ = integ\<lparr>cpodes := solver\<rparr>;
                        integ = integ\<lparr>advancedState := (advancedState integ)\<lparr>Y := yout\<rparr>\<rparr>;
                        integ = integ\<lparr>previousTimeReturned := tret\<rparr>
                    in (res, tret, integ)))
         else
           (let res = pendingReturnCode integ;
                tret = previousTimeReturned integ;
                integ = (if length (savedY integ) > 0
                         then integ\<lparr>advancedState := (advancedState integ)\<lparr>Y := savedY integ\<rparr>\<rparr>
                         else integ);
                integ = integ\<lparr>pendingReturnCode := - 1\<rparr>
            in (res, tret, integ)))
      of (res, tret, integ) \<Rightarrow>
        (let integ = integ\<lparr>advancedState := (advancedState integ)\<lparr>Time := tret\<rparr>\<rparr>;
             integ = integ\<lparr>advancedState := realizeStateDerivatives base (advancedState integ)\<rparr>
         in (res, tret, integ)))"

text \<open>Lines 281 to 287.\<close>

definition interpolateIfNeeded ::
  "'s CPodes \<Rightarrow> 'd IntegratorRep \<Rightarrow> Real \<Rightarrow> Real \<Rightarrow> ('d, 's) CPodesIntegratorRep
     \<Rightarrow> ('d, 's) CPodesIntegratorRep" where
  "interpolateIfNeeded cp base tMax tret integ =
     (if tret > tMax then
        (let integ = integ\<lparr>useInterpolatedState := True\<rparr>;
             integ = createInterpolatedState cp tMax integ;
             integ = integ\<lparr>interpolatedState := realizeStateDerivatives base (interpolatedState integ)\<rparr>
         in integ)
      else integ\<lparr>useInterpolatedState := False\<rparr>)"

text \<open>Lines 329 to 344: the event set of a root return.\<close>

definition triggeredAtRoot ::
  "'s CPodes \<Rightarrow> 'd IntegratorRep \<Rightarrow> Real \<Rightarrow> ('d, 's) CPodesIntegratorRep \<Rightarrow> TriggeredEvents" where
  "triggeredAtRoot cp base tret integ =
     (let nevents = NEvents (advancedState integ);
          eventFlags = map (getRootInfo cp (cpodes integ)) [0..<nevents];
          eventIds = map int (filter (\<lambda>i. eventFlags ! i = 1) [0..<nevents]);
          eventIds = findEventIds base eventIds
      in \<lparr>tLow = previousStartTime integ, tHigh = tret, eventIds = eventIds,
          eventTimes = map (\<lambda>i. tret) [0..<length eventIds],
          eventTransitions = map (\<lambda>i. AnySignChange) [0..<length eventIds]\<rparr>)"

text \<open>Lines 291 to 354: the return code, once the error checks have passed.\<close>

definition decide ::
  "'s CPodes \<Rightarrow> 'd IntegratorRep \<Rightarrow> Real \<Rightarrow> Real \<Rightarrow> int \<Rightarrow> Real \<Rightarrow> ('d, 's) CPodesIntegratorRep
     \<Rightarrow> ('d, 's) CPodesIntegratorRep LoopStep" where
  "decide cp base reportTime scheduledEventTime res tret integ =
     (if tret \<ge> reportTime \<and> reportTime \<le> scheduledEventTime then
        (let integ = integ\<lparr>savedY := []\<rparr>;
             integ = integ\<lparr>pendingReturnCode := res\<rparr>;
             integ = integ\<lparr>stepCommunicationStatus := StepHasBeenReturnedNoEvent\<rparr>
         in Exit (Returned ReachedReportTime integ))
      else if tret \<ge> scheduledEventTime then
        (let integ =
               (if tret > scheduledEventTime then
                  (let integ = integ\<lparr>savedY := Y (advancedState integ)\<rparr>;
                       integ = integ\<lparr>advancedState :=
                                 (advancedState integ)\<lparr>Y := Y (interpolatedState integ)\<rparr>\<rparr>;
                       integ = integ\<lparr>advancedState :=
                                 (advancedState integ)\<lparr>Time := scheduledEventTime\<rparr>\<rparr>;
                       integ = integ\<lparr>advancedState :=
                                 realizeStateDerivatives base (advancedState integ)\<rparr>
                   in integ)
                else integ);
             integ = integ\<lparr>pendingReturnCode := res\<rparr>;
             integ = integ\<lparr>stepCommunicationStatus := StepHasBeenReturnedWithEvent\<rparr>
         in Exit (Returned ReachedScheduledEvent integ))
      else if res = TstopReturn cp then
        (let integ = integ\<lparr>stepCommunicationStatus := FinalTimeHasBeenReturned\<rparr>;
             integ = integ\<lparr>terminationReason := ReachedFinalTime\<rparr>
         in Exit (Returned EndOfSimulation integ))
      else if res = RootReturn cp then
        (let integ = integ\<lparr>triggeredEvents := Some (triggeredAtRoot cp base tret integ)\<rparr>;
             integ = integ\<lparr>stepCommunicationStatus := StepHasBeenReturnedWithEvent\<rparr>
         in Exit (Returned ReachedEventTrigger integ))
      else if userReturnEveryInternalStep integ = 1 then
        Exit (Returned TimeHasAdvanced
               (integ\<lparr>stepCommunicationStatus := StepHasBeenReturnedNoEvent\<rparr>))
      else Continue integ)"

text \<open>
  The guards of lines 291, 300, 317, 325 and 348: a pass that has come through the error
  checks with the result \<open>res\<close> at time \<open>tret\<close> returns from the call when one of them
  holds, and goes round the loop when none does.
\<close>

definition returnsAt ::
  "'s CPodes \<Rightarrow> Real \<Rightarrow> Real \<Rightarrow> int \<Rightarrow> Real \<Rightarrow> ('d, 's) CPodesIntegratorRep \<Rightarrow> bool" where
  "returnsAt cp reportTime scheduledEventTime res tret integ =
     ((tret \<ge> reportTime \<and> reportTime \<le> scheduledEventTime)
      \<or> tret \<ge> scheduledEventTime
      \<or> res = TstopReturn cp
      \<or> res = RootReturn cp
      \<or> userReturnEveryInternalStep integ = 1)"

text \<open>The body of the loop, lines 238 to 355.\<close>

definition loopBody ::
  "'s CPodes \<Rightarrow> 'd IntegratorRep \<Rightarrow> Real \<Rightarrow> Real \<Rightarrow> Real \<Rightarrow> StepMode
     \<Rightarrow> ('d, 's) CPodesIntegratorRep \<Rightarrow> ('d, 's) CPodesIntegratorRep LoopStep" where
  "loopBody cp base reportTime scheduledEventTime tMax mode integ =
     (case advance cp base tMax mode integ of
        (res, tret, integ) \<Rightarrow>
          if res = TooMuchWork cp then
            Exit (Returned ReachedStepLimit
                   (integ\<lparr>stepCommunicationStatus := StepHasBeenReturnedNoEvent\<rparr>))
          else if res < 0 then
            Exit (Threw (StepFailed (Time (advancedState integ))
                          ''CPodes::step() returned an error'') integ)
          else
            decide cp base reportTime scheduledEventTime res tret
              (interpolateIfNeeded cp base tMax tret integ))"

text \<open>
  \<open>while (true)\<close> need not end: the loop is a partial function, and \<open>None\<close> is the call
  that never returns.
\<close>

partial_function (option) stepLoop ::
  "'s CPodes \<Rightarrow> 'd IntegratorRep \<Rightarrow> Real \<Rightarrow> Real \<Rightarrow> Real \<Rightarrow> StepMode
     \<Rightarrow> ('d, 's) CPodesIntegratorRep \<Rightarrow> ('d, 's) CPodesIntegratorRep StepToResult option" where
  "stepLoop cp base reportTime scheduledEventTime tMax mode integ =
     (case loopBody cp base reportTime scheduledEventTime tMax mode integ of
        Continue integ' \<Rightarrow> stepLoop cp base reportTime scheduledEventTime tMax mode integ'
      | Exit r \<Rightarrow> Some r)"

text \<open>
  \<open>loopAfter k\<close> is the integrator object after \<open>k\<close> passes through the loop that all
  went round again, if the loop gets that far.
\<close>

fun loopAfter ::
  "'s CPodes \<Rightarrow> 'd IntegratorRep \<Rightarrow> Real \<Rightarrow> Real \<Rightarrow> Real \<Rightarrow> StepMode \<Rightarrow> nat
     \<Rightarrow> ('d, 's) CPodesIntegratorRep \<Rightarrow> ('d, 's) CPodesIntegratorRep option" where
  "loopAfter cp base reportTime scheduledEventTime tMax mode 0 integ = Some integ"
| "loopAfter cp base reportTime scheduledEventTime tMax mode (Suc k) integ =
     (case loopBody cp base reportTime scheduledEventTime tMax mode integ of
        Continue integ' \<Rightarrow> loopAfter cp base reportTime scheduledEventTime tMax mode k integ'
      | Exit r \<Rightarrow> None)"

text \<open>Line 218 and 219: a non-positive scheduled event time means that there is none.\<close>

definition effectiveEventTime :: "Real \<Rightarrow> Real" where
  "effectiveEventTime scheduledEventTime =
     (if scheduledEventTime \<le> Finite 0 then Infinity else scheduledEventTime)"

definition stepTo ::
  "bool \<Rightarrow> 's CPodes \<Rightarrow> 'd IntegratorRep \<Rightarrow> Real \<Rightarrow> Real \<Rightarrow> ('d, 's) CPodesIntegratorRep
     \<Rightarrow> ('d, 's) CPodesIntegratorRep StepToResult option" where
  "stepTo NDEBUG cp base reportTime scheduledEventTime integ =
     (if \<not> NDEBUG \<and> \<not> stepTo_asserts integ reportTime scheduledEventTime then
        Some AssertionFailed
      else if startOfContinuousInterval integ then
        Some (Returned StartOfContinuousInterval (integ\<lparr>startOfContinuousInterval := False\<rparr>))
      else
        (let scheduledEventTime = effectiveEventTime scheduledEventTime;
             tMax = min reportTime scheduledEventTime;
             mode = stepMode integ
         in stepLoop cp base reportTime scheduledEventTime tMax mode integ))"

text \<open>
  \<open>passOfCall NDEBUG cp base reportTime scheduledEventTime integ k\<close> is the integrator
  object at the head of pass \<open>k\<close> (counted from 0) of the loop in the call
  \<open>stepTo(reportTime, scheduledEventTime)\<close> made on \<open>integ\<close>, if the call gets there.
\<close>

definition passOfCall ::
  "bool \<Rightarrow> 's CPodes \<Rightarrow> 'd IntegratorRep \<Rightarrow> Real \<Rightarrow> Real \<Rightarrow> ('d, 's) CPodesIntegratorRep \<Rightarrow> nat
     \<Rightarrow> ('d, 's) CPodesIntegratorRep option" where
  "passOfCall NDEBUG cp base reportTime scheduledEventTime integ k =
     (if \<not> NDEBUG \<and> \<not> stepTo_asserts integ reportTime scheduledEventTime then None
      else if startOfContinuousInterval integ then None
      else loopAfter cp base reportTime (effectiveEventTime scheduledEventTime)
             (min reportTime (effectiveEventTime scheduledEventTime)) (stepMode integ) k integ)"

section \<open>A scripted solver and a small integrator, for the examples\<close>

text \<open>
  The examples run the step controller against a solver that plays back a script: its
  state is the list of the results \<open>(res, tret)\<close> still to come, each step returns the
  next one with every entry of \<open>yout\<close> equal to \<open>tret\<close>, and an exhausted script fails
  with code \<open>-4\<close>. Dense output at time \<open>t\<close> gives a vector whose entries are \<open>t\<close>. Of
  the three event triggers, trigger 1 reports the flag \<open>-1\<close> and the others \<open>1\<close>.
\<close>

definition scriptedCPodes :: "(int \<times> real) list CPodes" where
  "scriptedCPodes =
     \<lparr>Success = 0, RecoverableError = 9999, TooMuchWork = - 1, TstopReturn = 1, RootReturn = 2,
      step = (\<lambda>s tout mode. case s of
                [] \<Rightarrow> (- 4, tout, (\<lambda>i. 0), [])
              | (res, t) # rest \<Rightarrow> (res, Finite t, (\<lambda>i. t), rest)),
      getDky = (\<lambda>s t k i. case t of Finite x \<Rightarrow> x | Infinity \<Rightarrow> 0),
      getRootInfo = (\<lambda>s i. if i = 1 then - 1 else 1)\<rparr>"

definition plainBase :: "unit IntegratorRep" where
  "plainBase = \<lparr>derivedQuantities = (\<lambda>s. ([], [], [])), findEventIds = (\<lambda>ids. ids)\<rparr>"

definition offsetBase :: "unit IntegratorRep" where
  "offsetBase = \<lparr>derivedQuantities = (\<lambda>s. ([], [], [])), findEventIds = map (\<lambda>i. i + 100)\<rparr>"

definition snapshotAt :: "real \<Rightarrow> unit State" where
  "snapshotAt t =
     \<lparr>Time = Finite t, Y = [t], discrete = (), NEvents = 3, YDot = [], YErr = [], Events = []\<rparr>"

text \<open>
  An initialized integrator whose Advanced State is at time \<open>t\<close>, with no pending
  result, no final time and no per-step notification, driving the given script.
\<close>

definition integratorAt ::
  "real \<Rightarrow> (int \<times> real) list \<Rightarrow> (unit, (int \<times> real) list) CPodesIntegratorRep" where
  "integratorAt t script =
     \<lparr>advancedState = snapshotAt t, interpolatedState = snapshotAt t,
      useInterpolatedState = False, startOfContinuousInterval = False,
      stepCommunicationStatus = InvalidStepCommunicationStatus,
      terminationReason = InvalidTerminationReason, triggeredEvents = None,
      previousTime = Finite t, constraintToleranceInUse = Finite 1,
      userFinalTime = Finite (- 1), userReturnEveryInternalStep = 0,
      cpodes = script, initialized = True, pendingReturnCode = - 1,
      previousStartTime = Finite 0, previousTimeReturned = Finite 0, savedY = []\<rparr>"

text \<open>The same integrator, set to return after every internal step.\<close>

definition notifyingAt ::
  "real \<Rightarrow> (int \<times> real) list \<Rightarrow> (unit, (int \<times> real) list) CPodesIntegratorRep" where
  "notifyingAt t script = (integratorAt t script)\<lparr>userReturnEveryInternalStep := 1\<rparr>"

text \<open>A system whose realization fails on snapshots at negative times.\<close>

definition partialSystem :: "unit System" where
  "partialSystem =
     \<lparr>sys_realize = (\<lambda>s stage. if Time s < Finite 0 then None
                                else Some (s\<lparr>YDot := Y s, YErr := [], Events := Y s\<rparr>)),
      sys_calcYUnitWeights = (\<lambda>s. Some (map (\<lambda>x. 1) (Y s))),
      sys_calcYErrUnitTolerances = (\<lambda>s. Some []),
      sys_project = (\<lambda>s tol w u err. if tol < Finite 0 then (None, err)
                                       else (Some (s\<lparr>Y := map (\<lambda>x. 0) (Y s)\<rparr>), err))\<rparr>"

text \<open>
  A system in which one call of the \<open>try\<close> block of \<open>project\<close> raises: the realization
  (\<open>k = 0\<close>), the unit weights (\<open>k = 1\<close>), the unit tolerances (\<open>k = 2\<close>) or the
  projection itself (\<open>k = 3\<close>), which has by then cleared the error estimate; for any
  other \<open>k\<close> none does, and the projection moves the snapshot to the origin.
\<close>

definition raisingSystem :: "nat \<Rightarrow> unit System" where
  "raisingSystem k =
     \<lparr>sys_realize = (\<lambda>s stage. if k = 0 then None
                                else Some (s\<lparr>YDot := Y s, YErr := [], Events := Y s\<rparr>)),
      sys_calcYUnitWeights = (\<lambda>s. if k = 1 then None else Some (map (\<lambda>x. 1) (Y s))),
      sys_calcYErrUnitTolerances = (\<lambda>s. if k = 2 then None else Some []),
      sys_project = (\<lambda>s tol w u err. if k = 3 then (None, map (\<lambda>x. 0) err)
                                       else (Some (s\<lparr>Y := map (\<lambda>x. 0) (Y s)\<rparr>), err))\<rparr>"

section \<open>Reading a result\<close>

text \<open>The status a call returned, if it returned one.\<close>

definition statusOf :: "'i StepToResult option \<Rightarrow> SuccessfulStepStatus option" where
  "statusOf r = (case r of Some (Returned status integ) \<Rightarrow> Some status | _ \<Rightarrow> None)"

text \<open>The integrator object as a call left it.\<close>

definition integOf :: "'i StepToResult option \<Rightarrow> 'i option" where
  "integOf r =
     (case r of
        Some (Returned status integ) \<Rightarrow> Some integ
      | Some (Threw e integ) \<Rightarrow> Some integ
      | _ \<Rightarrow> None)"

text \<open>A second call, made on the integrator object as the first call left it.\<close>

definition andThen ::
  "'i StepToResult option \<Rightarrow> ('i \<Rightarrow> 'i StepToResult option) \<Rightarrow> 'i StepToResult option" where
  "andThen r call = Option.bind (integOf r) call"

text \<open>The integrator object as one pass through the loop body left it.\<close>

definition afterPass :: "'i LoopStep \<Rightarrow> 'i option" where
  "afterPass p =
     (case p of
        Continue integ \<Rightarrow> Some integ
      | Exit (Returned status integ) \<Rightarrow> Some integ
      | Exit (Threw e integ) \<Rightarrow> Some integ
      | Exit AssertionFailed \<Rightarrow> None)"

text \<open>
  A pending result is consistent when the time it was returned at is not earlier than
  the Advanced State's time: resuming it does not take the Advanced State back.
\<close>

definition pendingConsistent :: "('d, 's) CPodesIntegratorRep \<Rightarrow> bool" where
  "pendingConsistent integ =
     (pendingReturnCode integ = - 1
      \<or> Time (advancedState integ) \<le> previousTimeReturned integ)"

section \<open>The loop and its passes\<close>

lemmas ctl_defs = loopBody_def advance_def Let_def realizeStateDerivatives_def
  interpolateIfNeeded_def decide_def createInterpolatedState_def triggeredAtRoot_def

lemmas call_defs = stepTo_def stepTo_asserts_def getState_def effectiveEventTime_def
  stepMode_def passOfCall_def

lemmas fix_defs = integratorAt_def snapshotAt_def scriptedCPodes_def plainBase_def

lemmas run_defs = stepLoop.simps call_defs fix_defs ctl_defs statusOf_def integOf_def

lemma stepLoop_Exit:
  "loopBody cp base reportTime scheduledEventTime tMax mode integ = Exit r
   \<Longrightarrow> stepLoop cp base reportTime scheduledEventTime tMax mode integ = Some r"
  by (subst stepLoop.simps) simp

lemma stepLoop_Continue:
  "loopBody cp base reportTime scheduledEventTime tMax mode integ = Continue integ'
   \<Longrightarrow> stepLoop cp base reportTime scheduledEventTime tMax mode integ
       = stepLoop cp base reportTime scheduledEventTime tMax mode integ'"
  by (subst stepLoop.simps) simp

lemma stepLoop_loopAfter:
  "loopAfter cp base reportTime scheduledEventTime tMax mode k integ = Some integk
   \<Longrightarrow> stepLoop cp base reportTime scheduledEventTime tMax mode integ
       = stepLoop cp base reportTime scheduledEventTime tMax mode integk"
proof (induction k arbitrary: integ)
  case 0
  then show ?case by simp
next
  case (Suc k)
  then obtain integ' where
    body: "loopBody cp base reportTime scheduledEventTime tMax mode integ = Continue integ'"
    and rest: "loopAfter cp base reportTime scheduledEventTime tMax mode k integ' = Some integk"
    by (auto split: LoopStep.splits)
  from stepLoop_Continue [OF body] Suc.IH [OF rest] show ?case by simp
qed

lemma stepTo_passOfCall:
  assumes "passOfCall NDEBUG cp base reportTime scheduledEventTime integ k = Some integk"
  shows "stepTo NDEBUG cp base reportTime scheduledEventTime integ
         = stepLoop cp base reportTime (effectiveEventTime scheduledEventTime)
             (min reportTime (effectiveEventTime scheduledEventTime)) (stepMode integ) integk"
proof -
  from assms have ok: "NDEBUG \<or> stepTo_asserts integ reportTime scheduledEventTime"
    and nostart: "\<not> startOfContinuousInterval integ"
    and la: "loopAfter cp base reportTime (effectiveEventTime scheduledEventTime)
             (min reportTime (effectiveEventTime scheduledEventTime)) (stepMode integ) k integ
             = Some integk"
    by (auto simp: passOfCall_def split: if_splits)
  from ok nostart have "stepTo NDEBUG cp base reportTime scheduledEventTime integ
     = stepLoop cp base reportTime (effectiveEventTime scheduledEventTime)
             (min reportTime (effectiveEventTime scheduledEventTime)) (stepMode integ) integ"
    by (auto simp: stepTo_def Let_def)
  with stepLoop_loopAfter [OF la] show ?thesis by simp
qed

text \<open>A pass that leaves the loop gives the call its result.\<close>

lemma stepTo_pass_Exit:
  assumes "passOfCall NDEBUG cp base reportTime scheduledEventTime integ k = Some integk"
      and "loopBody cp base reportTime (effectiveEventTime scheduledEventTime)
             (min reportTime (effectiveEventTime scheduledEventTime)) (stepMode integ) integk
           = Exit r"
  shows "stepTo NDEBUG cp base reportTime scheduledEventTime integ = Some r"
  using stepTo_passOfCall [OF assms(1)] stepLoop_Exit [OF assms(2)] by simp

lemma realizeStateDerivatives_keeps [simp]:
  "Time (realizeStateDerivatives base s) = Time s"
  "Y (realizeStateDerivatives base s) = Y s"
  "discrete (realizeStateDerivatives base s) = discrete s"
  "NEvents (realizeStateDerivatives base s) = NEvents s"
  by (simp_all add: realizeStateDerivatives_def split: prod.splits)

lemma advance_fresh:
  assumes "pendingReturnCode integ = - 1"
      and "step cp (cpodes integ) tMax mode = (res, tret, yout, solver)"
  shows "advance cp base tMax mode integ =
     (res, tret,
      integ\<lparr>previousStartTime := Time (advancedState integ),
            cpodes := solver,
            previousTimeReturned := tret,
            advancedState := realizeStateDerivatives base
               ((advancedState integ)\<lparr>Y := map yout [0..<length (Y (advancedState integ))],
                                       Time := tret\<rparr>)\<rparr>)"
  using assms by (simp add: advance_def Let_def)

lemma advance_resume:
  assumes "pendingReturnCode integ \<noteq> - 1"
  shows "advance cp base tMax mode integ =
     (pendingReturnCode integ, previousTimeReturned integ,
      integ\<lparr>pendingReturnCode := - 1,
            advancedState := realizeStateDerivatives base
               ((advancedState integ)\<lparr>Y := (if length (savedY integ) > 0 then savedY integ
                                             else Y (advancedState integ)),
                                       Time := previousTimeReturned integ\<rparr>)\<rparr>)"
  using assms by (simp add: advance_def Let_def)

lemma advance_props:
  assumes "advance cp base tMax mode integ = (res, tret, integ1)"
  shows "Time (advancedState integ1) = tret"
    and "pendingReturnCode integ1 = - 1"
    and "startOfContinuousInterval integ1 = startOfContinuousInterval integ"
    and "useInterpolatedState integ1 = useInterpolatedState integ"
    and "interpolatedState integ1 = interpolatedState integ"
    and "userReturnEveryInternalStep integ1 = userReturnEveryInternalStep integ"
    and "savedY integ1 = savedY integ"
  using assms
  by (auto simp: advance_def Let_def split: if_splits prod.splits)

lemma loopBody_unfold:
  assumes "advance cp base tMax mode integ = (res, tret, integ1)"
  shows "loopBody cp base reportTime scheduledEventTime tMax mode integ =
     (if res = TooMuchWork cp then
        Exit (Returned ReachedStepLimit
               (integ1\<lparr>stepCommunicationStatus := StepHasBeenReturnedNoEvent\<rparr>))
      else if res < 0 then
        Exit (Threw (StepFailed (Time (advancedState integ1))
                      ''CPodes::step() returned an error'') integ1)
      else decide cp base reportTime scheduledEventTime res tret
             (interpolateIfNeeded cp base tMax tret integ1))"
  using assms by (simp add: loopBody_def)

lemma interpolate_props:
  "useInterpolatedState (interpolateIfNeeded cp base tMax tret integ1) = (tMax < tret)"
  "tMax < tret \<Longrightarrow> Time (interpolatedState (interpolateIfNeeded cp base tMax tret integ1)) = tMax"
  "tMax < tret \<Longrightarrow> Y (interpolatedState (interpolateIfNeeded cp base tMax tret integ1))
      = map (getDky cp (cpodes integ1) tMax 0) [0..<length (Y (advancedState integ1))]"
  "tMax < tret \<Longrightarrow> discrete (interpolatedState (interpolateIfNeeded cp base tMax tret integ1))
      = discrete (advancedState integ1)"
  "advancedState (interpolateIfNeeded cp base tMax tret integ1) = advancedState integ1"
  "cpodes (interpolateIfNeeded cp base tMax tret integ1) = cpodes integ1"
  "pendingReturnCode (interpolateIfNeeded cp base tMax tret integ1) = pendingReturnCode integ1"
  "previousTimeReturned (interpolateIfNeeded cp base tMax tret integ1) = previousTimeReturned integ1"
  "previousStartTime (interpolateIfNeeded cp base tMax tret integ1) = previousStartTime integ1"
  "userReturnEveryInternalStep (interpolateIfNeeded cp base tMax tret integ1)
      = userReturnEveryInternalStep integ1"
  "\<not> tMax < tret \<Longrightarrow> interpolatedState (interpolateIfNeeded cp base tMax tret integ1)
      = interpolatedState integ1"
  by (simp_all add: interpolateIfNeeded_def createInterpolatedState_def Let_def)

lemma decide_after:
  "\<exists>integ'. afterPass (decide cp base reportTime scheduledEventTime res tret integ2) = Some integ'"
  by (simp add: decide_def afterPass_def Let_def)

lemma decide_keeps_interp:
  assumes "afterPass (decide cp base reportTime scheduledEventTime res tret integ2) = Some integ'"
  shows "useInterpolatedState integ' = useInterpolatedState integ2"
    and "interpolatedState integ' = interpolatedState integ2"
    and "cpodes integ' = cpodes integ2"
  using assms
  by (auto simp: decide_def afterPass_def Let_def split: if_splits)

text \<open>The loop never touches the start-of-interval flag.\<close>

lemma loopBody_keeps_start:
  assumes "loopBody cp base reportTime scheduledEventTime tMax mode integ = Continue integ'"
  shows "startOfContinuousInterval integ' = startOfContinuousInterval integ"
proof -
  obtain res tret integ1 where adv: "advance cp base tMax mode integ = (res, tret, integ1)"
    by (cases "advance cp base tMax mode integ") auto
  from assms show ?thesis
    unfolding loopBody_unfold [OF adv]
    using advance_props(3) [OF adv]
    by (auto simp: decide_def interpolateIfNeeded_def createInterpolatedState_def Let_def
             split: if_splits)
qed

lemma loopAfter_keeps_start:
  "loopAfter cp base reportTime scheduledEventTime tMax mode k integ = Some integk
   \<Longrightarrow> startOfContinuousInterval integk = startOfContinuousInterval integ"
proof (induction k arbitrary: integ)
  case 0
  then show ?case by simp
next
  case (Suc k)
  then obtain integ' where
    body: "loopBody cp base reportTime scheduledEventTime tMax mode integ = Continue integ'"
    and rest: "loopAfter cp base reportTime scheduledEventTime tMax mode k integ' = Some integk"
    by (auto split: LoopStep.splits)
  from loopBody_keeps_start [OF body] Suc.IH [OF rest] show ?case by simp
qed

lemma passOfCall_no_start:
  assumes "passOfCall NDEBUG cp base reportTime scheduledEventTime integ k = Some integk"
  shows "\<not> startOfContinuousInterval integk"
  using assms loopAfter_keeps_start
  by (fastforce simp: passOfCall_def split: if_splits)

lemma advance_more:
  assumes "advance cp base tMax mode integ = (res, tret, integ1)"
  shows "previousTimeReturned integ1 = tret"
  using assms
  by (auto simp: advance_def Let_def split: if_splits prod.splits)

lemma effective_below:
  assumes "effectiveEventTime scheduledEventTime < tret"
  shows "effectiveEventTime scheduledEventTime = scheduledEventTime"
  using assms by (cases tret) (auto simp: effectiveEventTime_def split: if_splits)

lemma fired_indices:
  fixes g :: "nat \<Rightarrow> int"
  defines "fired \<equiv> \<lambda>n. map int (filter (\<lambda>i. map g [0..<n] ! i = 1) [0..<n])"
  shows "sorted (fired n)"
    and "distinct (fired n)"
    and "set (fired n) = {int i | i. i < n \<and> g i = 1}"
proof -
  have same: "filter (\<lambda>i. map g [0..<n] ! i = 1) [0..<n] = filter (\<lambda>i. g i = 1) [0..<n]"
    by (rule filter_cong) auto
  show "sorted (fired n)"
    unfolding fired_def same by (simp add: sorted_map sorted_wrt_filter)
  show "distinct (fired n)"
    unfolding fired_def same by (simp add: distinct_map inj_on_def)
  show "set (fired n) = {int i | i. i < n \<and> g i = 1}"
    unfolding fired_def same by auto
qed

lemma advance_time_mono:
  assumes adv: "advance cp base tMax mode integ = (res, tret, integ1)"
      and inv: "pendingConsistent integ"
      and solver: "pendingReturnCode integ = - 1
                   \<longrightarrow> Time (advancedState integ) \<le> fst (snd (step cp (cpodes integ) tMax mode))"
  shows "Time (advancedState integ) \<le> tret"
proof (cases "pendingReturnCode integ = - 1")
  case True
  obtain r t y s where st: "step cp (cpodes integ) tMax mode = (r, t, y, s)"
    by (cases "step cp (cpodes integ) tMax mode") auto
  from adv advance_fresh [OF True st] have "tret = t" by simp
  with solver True st show ?thesis by simp
next
  case False
  from adv advance_resume [OF False] have "tret = previousTimeReturned integ" by simp
  with inv False show ?thesis by (simp add: pendingConsistent_def)
qed

text \<open>After a pass: where the Advanced State's time stands.\<close>

lemma pass_time:
  assumes adv: "advance cp base tMax mode integ = (res, tret, integ1)"
      and after: "afterPass (loopBody cp base reportTime scheduledEventTime tMax mode integ) = Some integ'"
  shows "previousTimeReturned integ' = tret"
    and "Time (advancedState integ') = tret
         \<or> (loopBody cp base reportTime scheduledEventTime tMax mode integ
              = Exit (Returned ReachedScheduledEvent integ')
            \<and> Time (advancedState integ') = scheduledEventTime \<and> scheduledEventTime < tret)"
  using after advance_props(1) [OF adv] advance_more [OF adv]
  unfolding loopBody_unfold [OF adv]
  by (auto simp: afterPass_def decide_def Let_def interpolate_props split: if_splits)

lemma pass_consistent:
  assumes adv: "advance cp base tMax mode integ = (res, tret, integ1)"
      and after: "afterPass (loopBody cp base reportTime scheduledEventTime tMax mode integ) = Some integ'"
  shows "pendingConsistent integ'"
  using pass_time [OF adv after] by (auto simp: pendingConsistent_def)

lemma pass_Continue_time:
  assumes adv: "advance cp base tMax mode integ = (res, tret, integ1)"
      and cont: "loopBody cp base reportTime scheduledEventTime tMax mode integ = Continue integ'"
  shows "Time (advancedState integ') = tret"
proof -
  from cont have "afterPass (loopBody cp base reportTime scheduledEventTime tMax mode integ) = Some integ'"
    by (simp add: afterPass_def)
  from pass_time(2) [OF adv this] cont show ?thesis by auto
qed

lemma loopAfter_mono:
  assumes "loopAfter cp base reportTime scheduledEventTime tMax mode k integ = Some integk"
      and "pendingConsistent integ"
      and "\<forall>j integj. j < k
             \<longrightarrow> loopAfter cp base reportTime scheduledEventTime tMax mode j integ = Some integj
             \<longrightarrow> pendingReturnCode integj = - 1
             \<longrightarrow> Time (advancedState integj) \<le> fst (snd (step cp (cpodes integj) tMax mode))"
  shows "Time (advancedState integ) \<le> Time (advancedState integk) \<and> pendingConsistent integk"
  using assms
proof (induction k arbitrary: integ)
  case 0
  then show ?case by simp
next
  case (Suc k)
  from Suc.prems(1) obtain integ' where
    body: "loopBody cp base reportTime scheduledEventTime tMax mode integ = Continue integ'"
    and rest: "loopAfter cp base reportTime scheduledEventTime tMax mode k integ' = Some integk"
    by (auto split: LoopStep.splits)
  obtain res tret integ1 where adv: "advance cp base tMax mode integ = (res, tret, integ1)"
    by (cases "advance cp base tMax mode integ") auto
  have first: "pendingReturnCode integ = - 1
               \<longrightarrow> Time (advancedState integ) \<le> fst (snd (step cp (cpodes integ) tMax mode))"
    using Suc.prems(3) by (auto dest: spec [of _ 0])
  have step1: "Time (advancedState integ) \<le> Time (advancedState integ')"
    using advance_time_mono [OF adv Suc.prems(2) first] pass_Continue_time [OF adv body] by simp
  have "afterPass (loopBody cp base reportTime scheduledEventTime tMax mode integ) = Some integ'"
    using body by (simp add: afterPass_def)
  from pass_consistent [OF adv this] have inv': "pendingConsistent integ'" .
  have later: "\<forall>j integj. j < k
             \<longrightarrow> loopAfter cp base reportTime scheduledEventTime tMax mode j integ' = Some integj
             \<longrightarrow> pendingReturnCode integj = - 1
             \<longrightarrow> Time (advancedState integj) \<le> fst (snd (step cp (cpodes integj) tMax mode))"
  proof (intro allI impI)
    fix j integj
    assume "j < k"
      and "loopAfter cp base reportTime scheduledEventTime tMax mode j integ' = Some integj"
      and p: "pendingReturnCode integj = - 1"
    then have "Suc j < Suc k"
      and "loopAfter cp base reportTime scheduledEventTime tMax mode (Suc j) integ = Some integj"
      using body by simp_all
    with Suc.prems(3) p
    show "Time (advancedState integj) \<le> fst (snd (step cp (cpodes integj) tMax mode))"
      by blast
  qed
  from Suc.IH [OF rest inv' later] step1 show ?case by auto
qed

text \<open>
  The first pass of a call made while a result is pending: it resumes that result, and
  either returns from the call or hands a fresh start to the second pass.
\<close>

lemma decide_returns:
  assumes "returnsAt cp reportTime scheduledEventTime res tret integ2"
  shows "\<exists>status integ''. decide cp base reportTime scheduledEventTime res tret integ2
            = Exit (Returned status integ'')
         \<and> cpodes integ'' = cpodes integ2"
  using assms by (auto simp: returnsAt_def decide_def Let_def)

lemma decide_continues:
  assumes "\<not> returnsAt cp reportTime scheduledEventTime res tret integ2"
  shows "decide cp base reportTime scheduledEventTime res tret integ2 = Continue integ2"
  using assms by (auto simp: returnsAt_def decide_def Let_def)

lemma resumed_pass:
  assumes pend: "pendingReturnCode integ' \<noteq> - 1"
      and ok: "pendingReturnCode integ' \<noteq> TooMuchWork cp" "\<not> pendingReturnCode integ' < 0"
      and nostart: "\<not> startOfContinuousInterval integ'"
  shows "(NDEBUG \<or> stepTo_asserts integ' reportTime scheduledEventTime
            \<longrightarrow> passOfCall NDEBUG cp base reportTime scheduledEventTime integ' 0 = Some integ')
       \<and> (if returnsAt cp reportTime (effectiveEventTime scheduledEventTime)
               (pendingReturnCode integ') (previousTimeReturned integ') integ'
          then \<exists>status integ''.
                 loopBody cp base reportTime (effectiveEventTime scheduledEventTime)
                   (min reportTime (effectiveEventTime scheduledEventTime)) (stepMode integ') integ'
                   = Exit (Returned status integ'')
               \<and> cpodes integ'' = cpodes integ'
               \<and> (NDEBUG \<or> stepTo_asserts integ' reportTime scheduledEventTime
                    \<longrightarrow> stepTo NDEBUG cp base reportTime scheduledEventTime integ'
                        = Some (Returned status integ''))
          else \<exists>integ3.
                 loopBody cp base reportTime (effectiveEventTime scheduledEventTime)
                   (min reportTime (effectiveEventTime scheduledEventTime)) (stepMode integ') integ'
                   = Continue integ3
               \<and> pendingReturnCode integ3 = - 1
               \<and> cpodes integ3 = cpodes integ'
               \<and> Time (advancedState integ3) = previousTimeReturned integ'
               \<and> Y (advancedState integ3)
                   = (if length (savedY integ') > 0 then savedY integ' else Y (advancedState integ'))
               \<and> (NDEBUG \<or> stepTo_asserts integ' reportTime scheduledEventTime
                    \<longrightarrow> passOfCall NDEBUG cp base reportTime scheduledEventTime integ' 1 = Some integ3)
               \<and> (\<forall>tMax mode.
                     fst (advance cp base tMax mode integ3) = fst (step cp (cpodes integ') tMax mode)
                   \<and> cpodes (snd (snd (advance cp base tMax mode integ3)))
                       = snd (snd (snd (step cp (cpodes integ') tMax mode)))))"
proof -
  let ?e = "effectiveEventTime scheduledEventTime"
  let ?tMax = "min reportTime ?e"
  let ?res = "pendingReturnCode integ'"
  let ?tret = "previousTimeReturned integ'"
  let ?i1 = "integ'\<lparr>pendingReturnCode := - 1,
            advancedState := realizeStateDerivatives base
               ((advancedState integ')\<lparr>Y := (if length (savedY integ') > 0 then savedY integ'
                                             else Y (advancedState integ')),
                                       Time := previousTimeReturned integ'\<rparr>)\<rparr>"
  let ?i2 = "interpolateIfNeeded cp base ?tMax ?tret ?i1"
  have adv: "advance cp base ?tMax (stepMode integ') integ' = (?res, ?tret, ?i1)"
    by (rule advance_resume [OF pend])
  have body: "loopBody cp base reportTime ?e ?tMax (stepMode integ') integ'
              = decide cp base reportTime ?e ?res ?tret ?i2"
    unfolding loopBody_unfold [OF adv] using ok by simp
  have p0: "passOfCall NDEBUG cp base reportTime scheduledEventTime integ' 0 = Some integ'"
    if "NDEBUG \<or> stepTo_asserts integ' reportTime scheduledEventTime"
    using that nostart by (auto simp: passOfCall_def)
  have same: "returnsAt cp reportTime ?e ?res ?tret ?i2 = returnsAt cp reportTime ?e ?res ?tret integ'"
    by (simp add: returnsAt_def interpolate_props)
  show ?thesis
  proof (cases "returnsAt cp reportTime ?e ?res ?tret integ'")
    case True
    with same have "returnsAt cp reportTime ?e ?res ?tret ?i2" by simp
    from decide_returns [OF this, of base] obtain status integ'' where
      d: "decide cp base reportTime ?e ?res ?tret ?i2 = Exit (Returned status integ'')"
      and c: "cpodes integ'' = cpodes ?i2" by blast
    have ex: "loopBody cp base reportTime ?e ?tMax (stepMode integ') integ'
              = Exit (Returned status integ'')"
      using body d by simp
    have c': "cpodes integ'' = cpodes integ'"
      using c by (simp add: interpolate_props)
    have call: "stepTo NDEBUG cp base reportTime scheduledEventTime integ'
                  = Some (Returned status integ'')"
      if "NDEBUG \<or> stepTo_asserts integ' reportTime scheduledEventTime"
      using stepTo_pass_Exit [OF p0 [OF that] ex] .
    from True p0 ex c' call show ?thesis by auto
  next
    case False
    with same have "\<not> returnsAt cp reportTime ?e ?res ?tret ?i2" by simp
    from decide_continues [OF this, of base] body
    have co: "loopBody cp base reportTime ?e ?tMax (stepMode integ') integ' = Continue ?i2"
      by simp
    have q1: "pendingReturnCode ?i2 = - 1"
      by (simp add: interpolate_props)
    have q2: "cpodes ?i2 = cpodes integ'"
      by (simp add: interpolate_props)
    have q3: "Time (advancedState ?i2) = ?tret"
      by (simp add: interpolate_props)
    have q4: "Y (advancedState ?i2)
                = (if length (savedY integ') > 0 then savedY integ' else Y (advancedState integ'))"
      by (simp add: interpolate_props)
    have q5: "passOfCall NDEBUG cp base reportTime scheduledEventTime integ' 1 = Some ?i2"
      if "NDEBUG \<or> stepTo_asserts integ' reportTime scheduledEventTime"
      using that nostart co by (auto simp: passOfCall_def)
    have q6: "fst (advance cp base tMax mode ?i2) = fst (step cp (cpodes integ') tMax mode)
            \<and> cpodes (snd (snd (advance cp base tMax mode ?i2)))
                = snd (snd (snd (step cp (cpodes integ') tMax mode)))" for tMax mode
    proof -
      obtain r t yo s where st: "step cp (cpodes ?i2) tMax mode = (r, t, yo, s)"
        by (cases "step cp (cpodes ?i2) tMax mode") auto
      from advance_fresh [OF q1 st, of base] st q2 show ?thesis by simp
    qed
    from False p0 co q1 q2 q3 q4 q5 q6 show ?thesis
      apply (simp only: if_False)
      apply (intro conjI impI)
       apply blast
      apply (rule exI [of _ ?i2])
      apply (intro conjI impI allI)
      by (simp_all only:)
  qed
qed

section \<open>The State Bridge: failures and frame\<close>

text \<open>
  Claim C3 (recoverable-failure containment). Each of the four callbacks returns
  \<open>CPodes::RecoverableError\<close> when the computation it forces raises an exception, and
  \<open>CPodes::Success\<close> when none does: for \<open>explicitODE\<close>, \<open>constraint\<close> and \<open>root\<close> that
  computation is the realization of the local snapshot at \<open>(t, y)\<close> to the callback's
  stage; for \<open>project\<close> it is the realization to \<open>Stage::Position\<close>, then
  \<open>calcYUnitWeights\<close>, then \<open>calcYErrUnitTolerances\<close>, then the projection
  \<open>system.project\<close> itself, and whichever of the four raises first gives
  \<open>CPodes::RecoverableError\<close>. The result of a callback is a value in every case: no
  exception leaves it.
\<close>

theorem callbacks_contain_failures:
  "fst (snd (explicitODE cp system integ t y ydot)) =
     (if sys_realize system ((advancedState integ)\<lparr>Y := y, Time := t\<rparr>) Acceleration = None
      then RecoverableError cp else Success cp)
   \<and> fst (snd (constraint cp system integ t y yerr)) =
     (if sys_realize system ((advancedState integ)\<lparr>Y := y, Time := t\<rparr>) Velocity = None
      then RecoverableError cp else Success cp)
   \<and> fst (snd (root_events cp system integ t y yp gout)) =
     (if sys_realize system ((advancedState integ)\<lparr>Y := y, Time := t\<rparr>) Acceleration = None
      then RecoverableError cp else Success cp)
   \<and> (sys_realize system ((advancedState integ)\<lparr>Y := y, Time := t\<rparr>) Position = None
        \<longrightarrow> fst (snd (project cp system integ t y ycorr epsProj err)) = RecoverableError cp)
   \<and> (sys_realize system ((advancedState integ)\<lparr>Y := y, Time := t\<rparr>) Position = Some a
        \<longrightarrow>
          (sys_calcYUnitWeights system a = None
             \<longrightarrow> fst (snd (project cp system integ t y ycorr epsProj err)) = RecoverableError cp)
        \<and> (sys_calcYUnitWeights system a = Some w
             \<longrightarrow>
               (sys_calcYErrUnitTolerances system a = None
                  \<longrightarrow> fst (snd (project cp system integ t y ycorr epsProj err)) = RecoverableError cp)
             \<and> (sys_calcYErrUnitTolerances system a = Some u
                  \<longrightarrow>
                    (fst (sys_project system a (constraintToleranceInUse integ) w u err) = None
                       \<longrightarrow> fst (snd (project cp system integ t y ycorr epsProj err))
                           = RecoverableError cp)
                  \<and> (fst (sys_project system a (constraintToleranceInUse integ) w u err) \<noteq> None
                       \<longrightarrow> fst (snd (project cp system integ t y ycorr epsProj err))
                           = Success cp))))"
  by (simp add: explicitODE_def constraint_def project_def root_events_def Let_def
           split: option.splits prod.splits)

theorem callbacks_contain_failures_witness:
  "fst (snd (explicitODE scriptedCPodes partialSystem (integratorAt 1 []) (Finite (- 1)) [2] [])) = 9999
   \<and> fst (snd (explicitODE scriptedCPodes partialSystem (integratorAt 1 []) (Finite 3) [2] [])) = 0
   \<and> sys_realize (raisingSystem 0) ((snapshotAt 1)\<lparr>Y := [2], Time := Finite 3\<rparr>) Position = None
   \<and> fst (snd (project scriptedCPodes (raisingSystem 0) (integratorAt 1 []) (Finite 3) [2] [] (Finite 1) [5]))
       = 9999
   \<and> sys_calcYUnitWeights (raisingSystem 1)
         ((snapshotAt 1)\<lparr>Y := [2], Time := Finite 3, YDot := [2], YErr := [], Events := [2]\<rparr>) = None
   \<and> fst (snd (project scriptedCPodes (raisingSystem 1) (integratorAt 1 []) (Finite 3) [2] [] (Finite 1) [5]))
       = 9999
   \<and> sys_calcYErrUnitTolerances (raisingSystem 2)
         ((snapshotAt 1)\<lparr>Y := [2], Time := Finite 3, YDot := [2], YErr := [], Events := [2]\<rparr>) = None
   \<and> fst (snd (project scriptedCPodes (raisingSystem 2) (integratorAt 1 []) (Finite 3) [2] [] (Finite 1) [5]))
       = 9999
   \<and> sys_project (raisingSystem 3)
         ((snapshotAt 1)\<lparr>Y := [2], Time := Finite 3, YDot := [2], YErr := [], Events := [2]\<rparr>)
         (Finite 1) [1] [] [5] = (None, [0])
   \<and> fst (snd (project scriptedCPodes (raisingSystem 3) (integratorAt 1 []) (Finite 3) [2] [] (Finite 1) [5]))
       = 9999
   \<and> snd (snd (project scriptedCPodes (raisingSystem 3) (integratorAt 1 []) (Finite 3) [2] [] (Finite 1) [5]))
       = ([], [0])
   \<and> fst (snd (project scriptedCPodes (raisingSystem 4) (integratorAt 1 []) (Finite 3) [2] [] (Finite 1) [5]))
       = 0
   \<and> snd (snd (project scriptedCPodes (raisingSystem 4) (integratorAt 1 []) (Finite 3) [2] [] (Finite 1) [5]))
       = ([- 2], [5])"
proof -
  let ?a = "(snapshotAt 1)\<lparr>Y := [2], Time := Finite 3, YDot := [2], YErr := [], Events := [2]\<rparr>"
  note at = callbacks_contain_failures [where cp = scriptedCPodes and integ = "integratorAt 1 []"
      and y = "[2]" and ydot = "[]" and yerr = "[]" and yp = "[]" and gout = "[]" and ycorr = "[]"
      and epsProj = "Finite 1" and err = "[5]" and a = ?a and w = "[1]" and u = "[]"]
  from at [where system = partialSystem and t = "Finite (- 1)"]
       at [where system = partialSystem and t = "Finite 3"]
       at [where system = "raisingSystem 0" and t = "Finite 3"]
       at [where system = "raisingSystem 1" and t = "Finite 3"]
       at [where system = "raisingSystem 2" and t = "Finite 3"]
       at [where system = "raisingSystem 3" and t = "Finite 3"]
       at [where system = "raisingSystem 4" and t = "Finite 3"]
  show ?thesis
    by (simp add: fix_defs partialSystem_def raisingSystem_def project_def Let_def)
qed

text \<open>
  Claim C4 (callback frame property). Each of the four callbacks works on a local copy
  of the Advanced State: on the success path and on the recoverable-error path alike,
  the integrator object after the callback is the integrator object before it, and so
  are its Advanced State's time and vector.
\<close>

theorem callbacks_leave_integrator_unchanged:
  "fst (explicitODE cp system integ t y ydot) = integ
   \<and> fst (constraint cp system integ t y yerr) = integ
   \<and> fst (project cp system integ t y ycorr epsProj err) = integ
   \<and> fst (root_events cp system integ t y yp gout) = integ"
  by (simp add: explicitODE_def constraint_def project_def root_events_def Let_def
           split: option.splits prod.splits)

theorem callbacks_leave_integrator_unchanged_witness:
  "advancedState (fst (explicitODE scriptedCPodes partialSystem (integratorAt 1 []) (Finite 3) [2] []))
     = snapshotAt 1
   \<and> advancedState (fst (project scriptedCPodes partialSystem (integratorAt 1 []) (Finite (- 1)) [2] []
                           (Finite 1) []))
     = snapshotAt 1"
  using callbacks_leave_integrator_unchanged [of scriptedCPodes partialSystem "integratorAt 1 []"
          "Finite 3" "[2]" "[]" "[]" "[]" "Finite 1" "[]" "[]" "[]"]
        callbacks_leave_integrator_unchanged [of scriptedCPodes partialSystem "integratorAt 1 []"
          "Finite (- 1)" "[2]" "[]" "[]" "[]" "Finite 1" "[]" "[]" "[]"]
  by (simp add: integratorAt_def)

section \<open>The Step Controller: one call\<close>

text \<open>
  Claim C6 (start-of-interval law). A call of \<open>stepTo\<close> made while the
  start-of-continuous-interval flag is set (and, in a build with assertions, with its
  three assertions true) returns \<open>StartOfContinuousInterval\<close> at once. The integrator
  object it leaves differs from the one it found in that flag only, which is cleared:
  the Advanced State, the Interpolated State and the solver are as they were, whatever
  the solver is.
\<close>

theorem start_of_interval_law:
  assumes "NDEBUG \<or> stepTo_asserts integ reportTime scheduledEventTime"
      and "startOfContinuousInterval integ"
  shows "stepTo NDEBUG cp base reportTime scheduledEventTime integ =
           Some (Returned StartOfContinuousInterval
                  (integ\<lparr>startOfContinuousInterval := False\<rparr>))"
  using assms by (auto simp: stepTo_def)

theorem start_of_interval_law_witness:
  "stepTo_asserts ((integratorAt 1 [(0, 2)])\<lparr>startOfContinuousInterval := True\<rparr>) (Finite 2) (Finite 0)
   \<and> stepTo False scriptedCPodes plainBase (Finite 2) (Finite 0)
        ((integratorAt 1 [(0, 2)])\<lparr>startOfContinuousInterval := True\<rparr>)
     = Some (Returned StartOfContinuousInterval (integratorAt 1 [(0, 2)]))"
proof -
  let ?i = "(integratorAt 1 [(0, 2)])\<lparr>startOfContinuousInterval := True\<rparr>"
  have h1: "stepTo_asserts ?i (Finite 2) (Finite 0)"
    by (simp add: stepTo_asserts_def getState_def integratorAt_def snapshotAt_def)
  have h2: "startOfContinuousInterval ?i"
    by simp
  have "False \<or> stepTo_asserts ?i (Finite 2) (Finite 0)"
    using h1 by simp
  from start_of_interval_law [OF this h2, of scriptedCPodes plainBase] h1 show ?thesis
    by (simp add: integratorAt_def)
qed

text \<open>
  Claim C8 (step-limit outcome). In a call of \<open>stepTo\<close>, let some pass of the loop make a
  fresh solver step, and let the solver return \<open>CPodes::TooMuchWork\<close> with time \<open>tret\<close>.
  Then the call returns \<open>ReachedStepLimit\<close> (it does not throw), the Advanced State it
  leaves has time \<open>tret\<close> and the vector the solver returned, no result is pending and the
  start-of-interval flag is clear: the first pass of the next call takes its result code
  from a fresh solver step.
\<close>

theorem step_limit_outcome:
  assumes pass: "passOfCall NDEBUG cp base reportTime scheduledEventTime integ k = Some integk"
      and fresh: "pendingReturnCode integk = - 1"
      and solver: "step cp (cpodes integk) (min reportTime (effectiveEventTime scheduledEventTime))
                     (stepMode integ) = (res, tret, yout, solver')"
      and limit: "res = TooMuchWork cp"
  shows "\<exists>integ'. stepTo NDEBUG cp base reportTime scheduledEventTime integ
                     = Some (Returned ReachedStepLimit integ')
           \<and> Time (advancedState integ') = tret
           \<and> Y (advancedState integ') = map yout [0..<length (Y (advancedState integk))]
           \<and> pendingReturnCode integ' = - 1
           \<and> \<not> startOfContinuousInterval integ'
           \<and> (\<forall>tMax' mode'. fst (advance cp base tMax' mode' integ')
                               = fst (step cp (cpodes integ') tMax' mode'))"
proof -
  let ?tMax = "min reportTime (effectiveEventTime scheduledEventTime)"
  define integ1 where "integ1 = snd (snd (advance cp base ?tMax (stepMode integ) integk))"
  have adv: "advance cp base ?tMax (stepMode integ) integk = (res, tret, integ1)"
    unfolding integ1_def by (simp add: advance_fresh [OF fresh solver])
  define integ' where "integ' = integ1\<lparr>stepCommunicationStatus := StepHasBeenReturnedNoEvent\<rparr>"
  have body: "loopBody cp base reportTime (effectiveEventTime scheduledEventTime) ?tMax
                (stepMode integ) integk = Exit (Returned ReachedStepLimit integ')"
    unfolding loopBody_unfold [OF adv] integ'_def using limit by simp
  have ret: "stepTo NDEBUG cp base reportTime scheduledEventTime integ
               = Some (Returned ReachedStepLimit integ')"
    by (rule stepTo_pass_Exit [OF pass body])
  have p1: "pendingReturnCode integ' = - 1"
    using advance_props(2) [OF adv] by (simp add: integ'_def)
  have t1: "Time (advancedState integ') = tret"
    using advance_props(1) [OF adv] by (simp add: integ'_def)
  have y1: "Y (advancedState integ') = map yout [0..<length (Y (advancedState integk))]"
    using adv by (auto simp: integ'_def advance_fresh [OF fresh solver])
  have s1: "\<not> startOfContinuousInterval integ'"
    using advance_props(3) [OF adv] passOfCall_no_start [OF pass] by (simp add: integ'_def)
  have next_fresh: "fst (advance cp base tMax' mode' integ') = fst (step cp (cpodes integ') tMax' mode')"
    for tMax' mode'
    using p1 by (cases "step cp (cpodes integ') tMax' mode'") (simp add: advance_fresh)
  from ret t1 y1 p1 s1 next_fresh show ?thesis by blast
qed

theorem step_limit_outcome_witness:
  "map_option cpodes
     (passOfCall False scriptedCPodes plainBase (Finite 2) (Finite 0)
        (integratorAt 1 [(0, 1.2), (- 1, 1.4)]) 1)
     = Some [(- 1, 1.4)]
   \<and> fst (step scriptedCPodes [(- 1, 1.4)] (Finite 2) Normal) = TooMuchWork scriptedCPodes
   \<and> statusOf (stepTo False scriptedCPodes plainBase (Finite 2) (Finite 0)
                 (integratorAt 1 [(0, 1.2), (- 1, 1.4)]))
     = Some ReachedStepLimit"
proof -
  let ?i = "integratorAt 1 [(0, 1.2), (- 1, 1.4)]"
  define integk where
    "integk = the (passOfCall False scriptedCPodes plainBase (Finite 2) (Finite 0) ?i 1)"
  have h1: "passOfCall False scriptedCPodes plainBase (Finite 2) (Finite 0) ?i 1 = Some integk"
    by (simp add: integk_def run_defs)
  have h2: "pendingReturnCode integk = - 1"
    by (simp add: integk_def run_defs)
  have h3: "step scriptedCPodes (cpodes integk) (min (Finite 2) (effectiveEventTime (Finite 0)))
              (stepMode ?i) = (- 1, Finite 1.4, (\<lambda>i. 1.4), [])"
    by (simp add: integk_def run_defs)
  have h4: "- 1 = TooMuchWork scriptedCPodes"
    by (simp add: fix_defs)
  have h5: "fst (step scriptedCPodes [(- 1, 1.4)] (Finite 2) Normal) = TooMuchWork scriptedCPodes"
    by (simp add: fix_defs)
  have h6: "cpodes integk = [(- 1, 1.4)]"
    by (simp add: integk_def run_defs)
  from step_limit_outcome [OF h1 h2 h3 h4] h1 h5 h6 show ?thesis
    by (auto simp: statusOf_def)
qed

text \<open>
  Claim C9 (step-failure error). In a call of \<open>stepTo\<close>, let some pass of the loop make a
  fresh solver step, and let the solver return a negative code other than
  \<open>CPodes::TooMuchWork\<close>, with time \<open>tret\<close>. Then the call throws \<open>Integrator::StepFailed\<close>;
  the time the exception carries is the time of the Advanced State, which is \<open>tret\<close>.
  The call returns no status.
\<close>

theorem step_failure_error:
  assumes pass: "passOfCall NDEBUG cp base reportTime scheduledEventTime integ k = Some integk"
      and fresh: "pendingReturnCode integk = - 1"
      and solver: "step cp (cpodes integk) (min reportTime (effectiveEventTime scheduledEventTime))
                     (stepMode integ) = (res, tret, yout, solver')"
      and failed: "res < 0" "res \<noteq> TooMuchWork cp"
  shows "\<exists>integ'. stepTo NDEBUG cp base reportTime scheduledEventTime integ
                     = Some (Threw (StepFailed (Time (advancedState integ'))
                                     ''CPodes::step() returned an error'') integ')
           \<and> Time (advancedState integ') = tret
           \<and> statusOf (stepTo NDEBUG cp base reportTime scheduledEventTime integ) = None"
proof -
  let ?tMax = "min reportTime (effectiveEventTime scheduledEventTime)"
  define integ1 where "integ1 = snd (snd (advance cp base ?tMax (stepMode integ) integk))"
  have adv: "advance cp base ?tMax (stepMode integ) integk = (res, tret, integ1)"
    unfolding integ1_def by (simp add: advance_fresh [OF fresh solver])
  have body: "loopBody cp base reportTime (effectiveEventTime scheduledEventTime) ?tMax
                (stepMode integ) integk
              = Exit (Threw (StepFailed (Time (advancedState integ1))
                              ''CPodes::step() returned an error'') integ1)"
    unfolding loopBody_unfold [OF adv] using failed by simp
  from stepTo_pass_Exit [OF pass body] advance_props(1) [OF adv] show ?thesis
    by (auto simp: statusOf_def)
qed

theorem step_failure_error_witness:
  "passOfCall False scriptedCPodes plainBase (Finite 2) (Finite 0) (integratorAt 1 [(- 4, 1.2)]) 0
     = Some (integratorAt 1 [(- 4, 1.2)])
   \<and> fst (step scriptedCPodes [(- 4, 1.2)] (Finite 2) Normal) = - 4
   \<and> - 4 \<noteq> TooMuchWork scriptedCPodes
   \<and> statusOf (stepTo False scriptedCPodes plainBase (Finite 2) (Finite 0)
                 (integratorAt 1 [(- 4, 1.2)]))
     = None
   \<and> map_option (Time \<circ> advancedState)
       (integOf (stepTo False scriptedCPodes plainBase (Finite 2) (Finite 0)
                  (integratorAt 1 [(- 4, 1.2)])))
     = Some (Finite 1.2)"
proof -
  let ?i = "integratorAt 1 [(- 4, 1.2)]"
  have h1: "passOfCall False scriptedCPodes plainBase (Finite 2) (Finite 0) ?i 0 = Some ?i"
    by (simp add: call_defs fix_defs)
  have h2: "pendingReturnCode ?i = - 1"
    by (simp add: fix_defs)
  have h3: "step scriptedCPodes (cpodes ?i) (min (Finite 2) (effectiveEventTime (Finite 0)))
              (stepMode ?i) = (- 4, Finite 1.2, (\<lambda>i. 1.2), [])"
    by (simp add: fix_defs)
  have h4: "(- 4 :: int) < 0"
    by simp
  have h5: "- 4 \<noteq> TooMuchWork scriptedCPodes"
    by (simp add: fix_defs)
  have h6: "fst (step scriptedCPodes [(- 4, 1.2)] (Finite 2) Normal) = - 4"
    by (simp add: fix_defs)
  from step_failure_error [OF h1 h2 h3 h4 h5] h1 h5 h6 show ?thesis
    by (auto simp: integOf_def)
qed

section \<open>The Step Controller: boundaries\<close>

text \<open>
  Claim C1 (tie-break law), as amended. In a call of \<open>stepTo\<close>, take a pass of the loop
  whose result code passes the two error checks (it is not \<open>CPodes::TooMuchWork\<close> and
  it is not negative) and whose returned time \<open>tret\<close> has reached both the report time
  and the scheduled event time (\<open>Infinity\<close> when the argument is not positive). Then the
  call returns \<open>ReachedReportTime\<close> when the report time is at or before the event time,
  and \<open>ReachedScheduledEvent\<close> when the event time is strictly earlier.
\<close>

theorem tie_break_after_error_checks:
  assumes pass: "passOfCall NDEBUG cp base reportTime scheduledEventTime integ k = Some integk"
      and adv: "advance cp base (min reportTime (effectiveEventTime scheduledEventTime))
                  (stepMode integ) integk = (res, tret, integ1)"
      and ok: "res \<noteq> TooMuchWork cp" "0 \<le> res"
      and both: "reportTime \<le> tret" "effectiveEventTime scheduledEventTime \<le> tret"
  shows "statusOf (stepTo NDEBUG cp base reportTime scheduledEventTime integ) =
           Some (if reportTime \<le> effectiveEventTime scheduledEventTime
                 then ReachedReportTime else ReachedScheduledEvent)"
proof -
  let ?e = "effectiveEventTime scheduledEventTime"
  let ?tMax = "min reportTime ?e"
  let ?integ2 = "interpolateIfNeeded cp base ?tMax tret integ1"
  have body: "loopBody cp base reportTime ?e ?tMax (stepMode integ) integk
              = decide cp base reportTime ?e res tret ?integ2"
    unfolding loopBody_unfold [OF adv] using ok by simp
  show ?thesis
  proof (cases "reportTime \<le> ?e")
    case True
    with both obtain integ' where
      "decide cp base reportTime ?e res tret ?integ2 = Exit (Returned ReachedReportTime integ')"
      by (simp add: decide_def Let_def)
    with body stepTo_pass_Exit [OF pass] True show ?thesis
      by (simp add: statusOf_def)
  next
    case False
    with both obtain integ' where
      "decide cp base reportTime ?e res tret ?integ2 = Exit (Returned ReachedScheduledEvent integ')"
      by (simp add: decide_def Let_def)
    with body stepTo_pass_Exit [OF pass] False show ?thesis
      by (simp add: statusOf_def)
  qed
qed

theorem tie_break_after_error_checks_witness:
  "passOfCall False scriptedCPodes plainBase (Finite 2) (Finite 2) (integratorAt 1 [(0, 2)]) 0
     = Some (integratorAt 1 [(0, 2)])
   \<and> fst (snd (advance scriptedCPodes plainBase (Finite 2) Normal (integratorAt 1 [(0, 2)]))) = Finite 2
   \<and> statusOf (stepTo False scriptedCPodes plainBase (Finite 2) (Finite 2) (integratorAt 1 [(0, 2)]))
     = Some ReachedReportTime
   \<and> statusOf (stepTo False scriptedCPodes plainBase (Finite 2) (Finite 1.5) (integratorAt 1 [(0, 2)]))
     = Some ReachedScheduledEvent"
proof -
  let ?i = "integratorAt 1 [(0, 2)]"
  define integ1 where "integ1 = snd (snd (advance scriptedCPodes plainBase (Finite 2) Normal ?i))"
  define integ1' where "integ1' = snd (snd (advance scriptedCPodes plainBase (Finite 1.5) Normal ?i))"
  have p: "passOfCall False scriptedCPodes plainBase (Finite 2) (Finite 2) ?i 0 = Some ?i"
    by (simp add: run_defs)
  have a: "advance scriptedCPodes plainBase (min (Finite 2) (effectiveEventTime (Finite 2)))
             (stepMode ?i) ?i = (0, Finite 2, integ1)"
    by (simp add: integ1_def run_defs)
  have ok: "0 \<noteq> TooMuchWork scriptedCPodes" "(0::int) \<le> 0"
    by (simp_all add: run_defs)
  have b: "Finite 2 \<le> Finite 2" "effectiveEventTime (Finite 2) \<le> Finite 2"
    by (simp_all add: run_defs)
  have p': "passOfCall False scriptedCPodes plainBase (Finite 2) (Finite 1.5) ?i 0 = Some ?i"
    by (simp add: run_defs)
  have a': "advance scriptedCPodes plainBase (min (Finite 2) (effectiveEventTime (Finite 1.5)))
             (stepMode ?i) ?i = (0, Finite 2, integ1')"
    by (simp add: integ1'_def run_defs)
  have b': "effectiveEventTime (Finite 1.5) \<le> Finite 2"
    by (simp add: run_defs)
  have f: "fst (snd (advance scriptedCPodes plainBase (Finite 2) Normal ?i)) = Finite 2"
    by (simp add: run_defs)
  from tie_break_after_error_checks [OF p a ok b]
    tie_break_after_error_checks [OF p' a' ok b(1) b'] p f
  show ?thesis
    by (simp add: effectiveEventTime_def)
qed

text \<open>
  Without the condition on the result code the law fails: here the solver fails with
  code \<open>-4\<close> at a returned time equal to the report time and to the event time, and the
  call returns no status (it throws), not \<open>ReachedReportTime\<close>.
\<close>

theorem tie_break_counterexample:
  "passOfCall False scriptedCPodes plainBase (Finite 2) (Finite 2) (integratorAt 1 [(- 4, 2)]) 0
     = Some (integratorAt 1 [(- 4, 2)])
   \<and> fst (step scriptedCPodes [(- 4, 2)] (Finite 2) Normal) = - 4
   \<and> fst (snd (step scriptedCPodes [(- 4, 2)] (Finite 2) Normal)) = Finite 2
   \<and> Finite 2 \<le> Finite 2
   \<and> effectiveEventTime (Finite 2) \<le> Finite 2
   \<and> Finite 2 \<le> effectiveEventTime (Finite 2)
   \<and> statusOf (stepTo False scriptedCPodes plainBase (Finite 2) (Finite 2) (integratorAt 1 [(- 4, 2)]))
     = None"
  by (simp add: run_defs)

text \<open>
  Claim C5 (interpolation trigger and ceiling), as amended. The ceiling is
  \<open>min reportTime scheduledEventTime\<close>, with \<open>Infinity\<close> for a scheduled event time that
  is not positive. A pass of the loop whose result code passes the two error checks
  leaves the interpolated-state flag true exactly when the returned time is strictly
  beyond the ceiling, and then the Interpolated State is the Advanced State with its time
  set to the ceiling and its vector to the solver's dense output at the ceiling;
  otherwise it leaves the flag false. A pass that ends at one of the error checks
  (step limit or failure) leaves the flag and the Interpolated State as it found them.
\<close>

theorem interpolation_trigger_and_ceiling:
  assumes pass: "passOfCall NDEBUG cp base reportTime scheduledEventTime integ k = Some integk"
      and ceiling: "tMax = min reportTime (effectiveEventTime scheduledEventTime)"
      and adv: "advance cp base tMax (stepMode integ) integk = (res, tret, integ1)"
  shows "\<exists>integ'.
           afterPass (loopBody cp base reportTime (effectiveEventTime scheduledEventTime) tMax
                        (stepMode integ) integk) = Some integ'
         \<and> (res \<noteq> TooMuchWork cp \<and> 0 \<le> res \<longrightarrow>
              useInterpolatedState integ' = (tMax < tret)
            \<and> (tMax < tret \<longrightarrow>
                 Time (interpolatedState integ') = tMax
               \<and> Y (interpolatedState integ')
                   = map (getDky cp (cpodes integ1) tMax 0) [0..<length (Y (advancedState integ1))]
               \<and> discrete (interpolatedState integ') = discrete (advancedState integ1)))
         \<and> (res = TooMuchWork cp \<or> res < 0 \<longrightarrow>
              useInterpolatedState integ' = useInterpolatedState integk
            \<and> interpolatedState integ' = interpolatedState integk)"
proof (cases "res = TooMuchWork cp \<or> res < 0")
  case True
  then show ?thesis
    unfolding loopBody_unfold [OF adv]
    using advance_props(4,5) [OF adv]
    by (auto simp: afterPass_def)
next
  case False
  let ?e = "effectiveEventTime scheduledEventTime"
  let ?integ2 = "interpolateIfNeeded cp base tMax tret integ1"
  have body: "loopBody cp base reportTime ?e tMax (stepMode integ) integk
              = decide cp base reportTime ?e res tret ?integ2"
    unfolding loopBody_unfold [OF adv] using False by simp
  obtain integ' where after: "afterPass (decide cp base reportTime ?e res tret ?integ2) = Some integ'"
    using decide_after by blast
  from decide_keeps_interp [OF after] False body after
  show ?thesis by (auto simp: interpolate_props)
qed

theorem interpolation_trigger_and_ceiling_witness:
  "passOfCall False scriptedCPodes plainBase (Finite 2) (Finite 1.5) (integratorAt 1 [(0, 1.7)]) 0
     = Some (integratorAt 1 [(0, 1.7)])
   \<and> fst (snd (advance scriptedCPodes plainBase (Finite 1.5) Normal (integratorAt 1 [(0, 1.7)])))
     = Finite 1.7
   \<and> map_option useInterpolatedState
       (afterPass (loopBody scriptedCPodes plainBase (Finite 2) (Finite 1.5) (Finite 1.5) Normal
                    (integratorAt 1 [(0, 1.7)])))
     = Some True
   \<and> map_option (Time \<circ> interpolatedState)
       (afterPass (loopBody scriptedCPodes plainBase (Finite 2) (Finite 1.5) (Finite 1.5) Normal
                    (integratorAt 1 [(0, 1.7)])))
     = Some (Finite 1.5)"
proof -
  let ?i = "integratorAt 1 [(0, 1.7)]"
  define integ1 where "integ1 = snd (snd (advance scriptedCPodes plainBase (Finite 1.5) Normal ?i))"
  have p: "passOfCall False scriptedCPodes plainBase (Finite 2) (Finite 1.5) ?i 0 = Some ?i"
    by (simp add: run_defs)
  have c: "Finite 1.5 = min (Finite 2) (effectiveEventTime (Finite 1.5))"
    by (simp add: run_defs)
  have a: "advance scriptedCPodes plainBase (Finite 1.5) (stepMode ?i) ?i = (0, Finite 1.7, integ1)"
    by (simp add: integ1_def run_defs)
  have ok: "0 \<noteq> TooMuchWork scriptedCPodes \<and> (0::int) \<le> 0"
    by (simp add: run_defs)
  have lt: "Finite 1.5 < Finite 1.7"
    by simp
  have m: "stepMode ?i = Normal" "effectiveEventTime (Finite 1.5) = Finite 1.5"
    by (simp_all add: run_defs)
  have f: "fst (snd (advance scriptedCPodes plainBase (Finite 1.5) Normal ?i)) = Finite 1.7"
    by (simp add: run_defs)
  from interpolation_trigger_and_ceiling [OF p c a] ok lt p f show ?thesis
    by (auto simp: m effectiveEventTime_def)
qed

text \<open>
  A pass that ends at an error check does not reach the overshoot check: here the
  returned time 5 is beyond the ceiling 2, with the step-limit code and with a failure
  code, and the flag stays false and the Interpolated State is the old one.
\<close>

theorem interpolation_skipped_counterexample:
  "passOfCall False scriptedCPodes plainBase (Finite 2) (Finite 3) (integratorAt 1 [(- 1, 5)]) 0
     = Some (integratorAt 1 [(- 1, 5)])
   \<and> fst (snd (step scriptedCPodes [(- 1, 5)] (Finite 2) Normal)) = Finite 5
   \<and> min (Finite 2) (effectiveEventTime (Finite 3)) < Finite 5
   \<and> statusOf (stepTo False scriptedCPodes plainBase (Finite 2) (Finite 3) (integratorAt 1 [(- 1, 5)]))
     = Some ReachedStepLimit
   \<and> map_option useInterpolatedState
       (integOf (stepTo False scriptedCPodes plainBase (Finite 2) (Finite 3) (integratorAt 1 [(- 1, 5)])))
     = Some False
   \<and> map_option interpolatedState
       (integOf (stepTo False scriptedCPodes plainBase (Finite 2) (Finite 3) (integratorAt 1 [(- 1, 5)])))
     = Some (snapshotAt 1)
   \<and> fst (snd (step scriptedCPodes [(- 4, 5)] (Finite 2) Normal)) = Finite 5
   \<and> map_option useInterpolatedState
       (integOf (stepTo False scriptedCPodes plainBase (Finite 2) (Finite 3) (integratorAt 1 [(- 4, 5)])))
     = Some False"
  by (simp add: run_defs)

text \<open>
  Claim C2 (overshoot rewind and resumption), as amended. Let a call of \<open>stepTo\<close> return
  \<open>ReachedScheduledEvent\<close> from a pass whose returned time \<open>tret\<close> is strictly beyond the
  scheduled event time. Then the Advanced State the call leaves is at the scheduled
  event time exactly, with the vector of the Interpolated State, which is the solver's
  dense output at that time; the overshot vector is in \<open>savedY\<close>, the result code in
  \<open>pendingReturnCode\<close> (so a result is pending) and \<open>tret\<close> in \<open>previousTimeReturned\<close>.
  The first pass of the next call takes the saved code and time, puts the saved vector
  back into the Advanced State and sets its time to \<open>tret\<close>, whatever the solver is and
  without changing the solver's state: it does not invoke the solver. The next call
  returns from that first pass, with the solver's state as the first call left it, when
  at \<open>tret\<close> its report time or its scheduled event time is reached, or the saved code is
  \<open>CPodes::TstopReturn\<close> or \<open>CPodes::RootReturn\<close>, or the integrator returns after every
  internal step. Otherwise the first pass goes round the loop, with nothing pending,
  the saved vector and \<open>tret\<close> in the Advanced State and the solver's state still
  untouched, and the second pass of that call takes its result from a fresh solver step.
\<close>

theorem overshoot_rewind_and_resumption:
  assumes pass: "passOfCall NDEBUG cp base reportTime scheduledEventTime integ k = Some integk"
      and adv: "advance cp base (min reportTime (effectiveEventTime scheduledEventTime))
                  (stepMode integ) integk = (res, tret, integ1)"
      and ret: "loopBody cp base reportTime (effectiveEventTime scheduledEventTime)
                  (min reportTime (effectiveEventTime scheduledEventTime)) (stepMode integ) integk
                = Exit (Returned ReachedScheduledEvent integ')"
      and over: "effectiveEventTime scheduledEventTime < tret"
  shows "stepTo NDEBUG cp base reportTime scheduledEventTime integ
           = Some (Returned ReachedScheduledEvent integ')
       \<and> Time (advancedState integ') = scheduledEventTime
       \<and> Y (advancedState integ') = Y (interpolatedState integ')
       \<and> Time (interpolatedState integ') = scheduledEventTime
       \<and> Y (interpolatedState integ')
           = map (getDky cp (cpodes integ') scheduledEventTime 0) [0..<length (Y (advancedState integ1))]
       \<and> savedY integ' = Y (advancedState integ1)
       \<and> pendingReturnCode integ' = res
       \<and> pendingReturnCode integ' \<noteq> - 1
       \<and> previousTimeReturned integ' = tret
       \<and> \<not> startOfContinuousInterval integ'
       \<and> (\<forall>cp2 base2 tMax2 mode2. \<exists>integ2.
             advance cp2 base2 tMax2 mode2 integ' = (res, tret, integ2)
           \<and> Y (advancedState integ2) = Y (advancedState integ1)
           \<and> Time (advancedState integ2) = tret
           \<and> cpodes integ2 = cpodes integ')
       \<and> (\<forall>NDEBUG2 reportTime2 scheduledEventTime2.
             (NDEBUG2 \<or> stepTo_asserts integ' reportTime2 scheduledEventTime2
                \<longrightarrow> passOfCall NDEBUG2 cp base reportTime2 scheduledEventTime2 integ' 0 = Some integ')
           \<and> (if returnsAt cp reportTime2 (effectiveEventTime scheduledEventTime2) res tret integ'
              then \<exists>status integ''.
                     loopBody cp base reportTime2 (effectiveEventTime scheduledEventTime2)
                       (min reportTime2 (effectiveEventTime scheduledEventTime2)) (stepMode integ') integ'
                       = Exit (Returned status integ'')
                   \<and> cpodes integ'' = cpodes integ'
                   \<and> (NDEBUG2 \<or> stepTo_asserts integ' reportTime2 scheduledEventTime2
                        \<longrightarrow> stepTo NDEBUG2 cp base reportTime2 scheduledEventTime2 integ'
                            = Some (Returned status integ''))
              else \<exists>integ3.
                     loopBody cp base reportTime2 (effectiveEventTime scheduledEventTime2)
                       (min reportTime2 (effectiveEventTime scheduledEventTime2)) (stepMode integ') integ'
                       = Continue integ3
                   \<and> pendingReturnCode integ3 = - 1
                   \<and> cpodes integ3 = cpodes integ'
                   \<and> Time (advancedState integ3) = tret
                   \<and> Y (advancedState integ3) = Y (advancedState integ1)
                   \<and> (NDEBUG2 \<or> stepTo_asserts integ' reportTime2 scheduledEventTime2
                        \<longrightarrow> passOfCall NDEBUG2 cp base reportTime2 scheduledEventTime2 integ' 1
                            = Some integ3)
                   \<and> (\<forall>tMax mode.
                         fst (advance cp base tMax mode integ3) = fst (step cp (cpodes integ') tMax mode)
                       \<and> cpodes (snd (snd (advance cp base tMax mode integ3)))
                           = snd (snd (snd (step cp (cpodes integ') tMax mode))))))"
proof -
  let ?e = "effectiveEventTime scheduledEventTime"
  let ?tMax = "min reportTime ?e"
  let ?integ2 = "interpolateIfNeeded cp base ?tMax tret integ1"
  have e: "?e = scheduledEventTime"
    by (rule effective_below [OF over])
  from ret have ok: "res \<noteq> TooMuchWork cp" "\<not> res < 0"
    unfolding loopBody_unfold [OF adv] by (auto split: if_splits)
  with ret have dec: "decide cp base reportTime ?e res tret ?integ2
                      = Exit (Returned ReachedScheduledEvent integ')"
    unfolding loopBody_unfold [OF adv] by simp
  from dec have noreport: "\<not> (reportTime \<le> tret \<and> reportTime \<le> ?e)"
    by (auto simp: decide_def Let_def split: if_splits)
  with over have ceiling: "?tMax = ?e"
    by (auto simp: min_def)
  have shape: "integ' = ?integ2
      \<lparr>savedY := Y (advancedState integ1),
        advancedState := realizeStateDerivatives base
           ((advancedState integ1)\<lparr>Y := Y (interpolatedState ?integ2), Time := ?e\<rparr>),
        pendingReturnCode := res,
        stepCommunicationStatus := StepHasBeenReturnedWithEvent\<rparr>"
    using dec noreport over
    by (auto simp: decide_def Let_def interpolate_props split: if_splits)
  have c1: "stepTo NDEBUG cp base reportTime scheduledEventTime integ
              = Some (Returned ReachedScheduledEvent integ')"
    by (rule stepTo_pass_Exit [OF pass ret])
  have tlt: "?tMax < tret"
    using ceiling over by simp
  have c2: "Time (advancedState integ') = scheduledEventTime"
    unfolding shape by (simp add: e)
  have c3: "Y (advancedState integ') = Y (interpolatedState integ')"
    unfolding shape by simp
  have c4: "Time (interpolatedState integ') = scheduledEventTime"
    using interpolate_props(2) [OF tlt, of cp base integ1] ceiling e
    unfolding shape by simp
  have c5: "Y (interpolatedState integ')
             = map (getDky cp (cpodes integ') scheduledEventTime 0) [0..<length (Y (advancedState integ1))]"
    using interpolate_props(3) [OF tlt, of cp base integ1] ceiling e
    unfolding shape by (simp add: interpolate_props)
  have c6: "savedY integ' = Y (advancedState integ1)"
    unfolding shape by simp
  have c7: "pendingReturnCode integ' = res"
    unfolding shape by simp
  have c8: "pendingReturnCode integ' \<noteq> - 1"
    using c7 ok by simp
  have c9: "previousTimeReturned integ' = tret"
    using advance_more [OF adv] unfolding shape by (simp add: interpolate_props)
  have c10: "\<not> startOfContinuousInterval integ'"
    using passOfCall_no_start [OF pass] advance_props(3) [OF adv]
    unfolding shape by (simp add: interpolateIfNeeded_def createInterpolatedState_def Let_def)
  have ylen: "Y (advancedState integ') = Y (advancedState integ1)" if "savedY integ' = []"
    using that c3 c5 c6 by simp
  have c11: "\<exists>integ2. advance cp2 base2 tMax2 mode2 integ' = (res, tret, integ2)
               \<and> Y (advancedState integ2) = Y (advancedState integ1)
               \<and> Time (advancedState integ2) = tret
               \<and> cpodes integ2 = cpodes integ'"
    for cp2 base2 tMax2 mode2
    using c6 c7 c9 ylen by (auto simp: advance_resume [OF c8])
  have yeq: "(if length (savedY integ') > 0 then savedY integ' else Y (advancedState integ'))
               = Y (advancedState integ1)"
    using c6 ylen by auto
  have okA: "pendingReturnCode integ' \<noteq> TooMuchWork cp" and okB: "\<not> pendingReturnCode integ' < 0"
    using ok c7 by simp_all
  note c12 = resumed_pass [OF c8 okA okB c10, of _ _ _ base, unfolded c7 c9 yeq]
  from c1 c2 c3 c4 c5 c6 c7 c8 c9 c10 c11 c12 show ?thesis by blast
qed

theorem overshoot_rewind_and_resumption_witness:
  "passOfCall False scriptedCPodes plainBase (Finite 2) (Finite 1.5) (integratorAt 1 [(0, 1.7), (0, 2)]) 0
     = Some (integratorAt 1 [(0, 1.7), (0, 2)])
   \<and> fst (snd (advance scriptedCPodes plainBase (Finite 1.5) Normal (integratorAt 1 [(0, 1.7), (0, 2)])))
     = Finite 1.7
   \<and> effectiveEventTime (Finite 1.5) < Finite 1.7
   \<and> statusOf (stepTo False scriptedCPodes plainBase (Finite 2) (Finite 1.5)
                 (integratorAt 1 [(0, 1.7), (0, 2)]))
     = Some ReachedScheduledEvent
   \<and> map_option (Time \<circ> advancedState)
       (integOf (stepTo False scriptedCPodes plainBase (Finite 2) (Finite 1.5)
                  (integratorAt 1 [(0, 1.7), (0, 2)])))
     = Some (Finite 1.5)
   \<and> map_option savedY
       (integOf (stepTo False scriptedCPodes plainBase (Finite 2) (Finite 1.5)
                  (integratorAt 1 [(0, 1.7), (0, 2)])))
     = Some [1.7]
   \<and> map_option (\<lambda>i. stepTo_asserts i (Finite 1.6) (Finite 0))
       (integOf (stepTo False scriptedCPodes plainBase (Finite 2) (Finite 1.5)
                  (integratorAt 1 [(0, 1.7), (0, 2)])))
     = Some True
   \<and> map_option (returnsAt scriptedCPodes (Finite 1.6) (effectiveEventTime (Finite 0)) 0 (Finite 1.7))
       (integOf (stepTo False scriptedCPodes plainBase (Finite 2) (Finite 1.5)
                  (integratorAt 1 [(0, 1.7), (0, 2)])))
     = Some True
   \<and> statusOf (andThen (stepTo False scriptedCPodes plainBase (Finite 2) (Finite 1.5)
                          (integratorAt 1 [(0, 1.7), (0, 2)]))
                 (stepTo False scriptedCPodes plainBase (Finite 1.6) (Finite 0)))
     = Some ReachedReportTime
   \<and> map_option cpodes
       (integOf (andThen (stepTo False scriptedCPodes plainBase (Finite 2) (Finite 1.5)
                           (integratorAt 1 [(0, 1.7), (0, 2)]))
                  (stepTo False scriptedCPodes plainBase (Finite 1.6) (Finite 0))))
     = Some [(0, 2)]
   \<and> map_option (\<lambda>i. stepTo_asserts i (Finite 2) (Finite 0))
       (integOf (stepTo False scriptedCPodes plainBase (Finite 2) (Finite 1.5)
                  (integratorAt 1 [(0, 1.7), (0, 2)])))
     = Some True
   \<and> map_option (returnsAt scriptedCPodes (Finite 2) (effectiveEventTime (Finite 0)) 0 (Finite 1.7))
       (integOf (stepTo False scriptedCPodes plainBase (Finite 2) (Finite 1.5)
                  (integratorAt 1 [(0, 1.7), (0, 2)])))
     = Some False
   \<and> map_option cpodes
       (Option.bind (integOf (stepTo False scriptedCPodes plainBase (Finite 2) (Finite 1.5)
                               (integratorAt 1 [(0, 1.7), (0, 2)])))
          (\<lambda>i. passOfCall False scriptedCPodes plainBase (Finite 2) (Finite 0) i 1))
     = Some [(0, 2)]
   \<and> map_option pendingReturnCode
       (Option.bind (integOf (stepTo False scriptedCPodes plainBase (Finite 2) (Finite 1.5)
                               (integratorAt 1 [(0, 1.7), (0, 2)])))
          (\<lambda>i. passOfCall False scriptedCPodes plainBase (Finite 2) (Finite 0) i 1))
     = Some (- 1)
   \<and> statusOf (stepTo False scriptedCPodes plainBase (Finite 2) (Finite 1.5)
                 (notifyingAt 1 [(0, 1.7), (0, 2)]))
     = Some ReachedScheduledEvent
   \<and> map_option (\<lambda>i. stepTo_asserts i (Finite 2) (Finite 0))
       (integOf (stepTo False scriptedCPodes plainBase (Finite 2) (Finite 1.5)
                  (notifyingAt 1 [(0, 1.7), (0, 2)])))
     = Some True
   \<and> map_option (returnsAt scriptedCPodes (Finite 2) (effectiveEventTime (Finite 0)) 0 (Finite 1.7))
       (integOf (stepTo False scriptedCPodes plainBase (Finite 2) (Finite 1.5)
                  (notifyingAt 1 [(0, 1.7), (0, 2)])))
     = Some True
   \<and> statusOf (andThen (stepTo False scriptedCPodes plainBase (Finite 2) (Finite 1.5)
                          (notifyingAt 1 [(0, 1.7), (0, 2)]))
                 (stepTo False scriptedCPodes plainBase (Finite 2) (Finite 0)))
     = Some TimeHasAdvanced
   \<and> map_option cpodes
       (integOf (andThen (stepTo False scriptedCPodes plainBase (Finite 2) (Finite 1.5)
                           (notifyingAt 1 [(0, 1.7), (0, 2)]))
                  (stepTo False scriptedCPodes plainBase (Finite 2) (Finite 0))))
     = Some [(0, 2)]"
proof -
  let ?i = "integratorAt 1 [(0, 1.7), (0, 2)]"
  let ?j = "notifyingAt 1 [(0, 1.7), (0, 2)]"
  define integ1 where "integ1 = snd (snd (advance scriptedCPodes plainBase (Finite 1.5) Normal ?i))"
  define integ' where "integ' = integ1
      \<lparr>advancedState := snapshotAt 1.5, interpolatedState := snapshotAt 1.5,
        useInterpolatedState := True, savedY := [1.7], pendingReturnCode := 0,
        stepCommunicationStatus := StepHasBeenReturnedWithEvent\<rparr>"
  define jnteg1 where "jnteg1 = snd (snd (advance scriptedCPodes plainBase (Finite 1.5) OneStep ?j))"
  define jnteg' where "jnteg' = jnteg1
      \<lparr>advancedState := snapshotAt 1.5, interpolatedState := snapshotAt 1.5,
        useInterpolatedState := True, savedY := [1.7], pendingReturnCode := 0,
        stepCommunicationStatus := StepHasBeenReturnedWithEvent\<rparr>"
  have p: "passOfCall False scriptedCPodes plainBase (Finite 2) (Finite 1.5) ?i 0 = Some ?i"
    by (simp add: run_defs)
  have a: "advance scriptedCPodes plainBase (min (Finite 2) (effectiveEventTime (Finite 1.5)))
             (stepMode ?i) ?i = (0, Finite 1.7, integ1)"
    by (simp add: integ1_def run_defs)
  have r: "loopBody scriptedCPodes plainBase (Finite 2) (effectiveEventTime (Finite 1.5))
             (min (Finite 2) (effectiveEventTime (Finite 1.5))) (stepMode ?i) ?i
           = Exit (Returned ReachedScheduledEvent integ')"
    by (simp add: integ'_def integ1_def run_defs)
  have over: "effectiveEventTime (Finite 1.5) < Finite 1.7"
    by (simp add: run_defs)
  have f: "fst (snd (advance scriptedCPodes plainBase (Finite 1.5) Normal ?i)) = Finite 1.7"
    by (simp add: run_defs)
  have y1: "Y (advancedState integ1) = [1.7]"
    by (simp add: integ1_def run_defs)
  have pj: "passOfCall False scriptedCPodes plainBase (Finite 2) (Finite 1.5) ?j 0 = Some ?j"
    by (simp add: run_defs notifyingAt_def)
  have aj: "advance scriptedCPodes plainBase (min (Finite 2) (effectiveEventTime (Finite 1.5)))
             (stepMode ?j) ?j = (0, Finite 1.7, jnteg1)"
    by (simp add: jnteg1_def run_defs notifyingAt_def)
  have rj: "loopBody scriptedCPodes plainBase (Finite 2) (effectiveEventTime (Finite 1.5))
             (min (Finite 2) (effectiveEventTime (Finite 1.5))) (stepMode ?j) ?j
           = Exit (Returned ReachedScheduledEvent jnteg')"
    by (simp add: jnteg'_def jnteg1_def run_defs notifyingAt_def)
  have n1: "stepTo_asserts integ' (Finite 1.6) (Finite 0)"
    by (simp add: integ'_def integ1_def run_defs)
  have n2: "returnsAt scriptedCPodes (Finite 1.6) (effectiveEventTime (Finite 0)) 0 (Finite 1.7) integ'"
    by (simp add: integ'_def integ1_def run_defs returnsAt_def)
  have n3: "\<not> returnsAt scriptedCPodes (Finite 2) (effectiveEventTime (Finite 0)) 0 (Finite 1.7) integ'"
    by (simp add: integ'_def integ1_def run_defs returnsAt_def)
  have n4: "stepTo_asserts integ' (Finite 2) (Finite 0)"
    by (simp add: integ'_def integ1_def run_defs)
  have m1: "stepTo_asserts jnteg' (Finite 2) (Finite 0)"
    by (simp add: jnteg'_def jnteg1_def run_defs notifyingAt_def)
  have m2: "returnsAt scriptedCPodes (Finite 2) (effectiveEventTime (Finite 0)) 0 (Finite 1.7) jnteg'"
    by (simp add: jnteg'_def jnteg1_def run_defs returnsAt_def notifyingAt_def)
  note ti = overshoot_rewind_and_resumption [OF p a r over]
  note tj = overshoot_rewind_and_resumption [OF pj aj rj over]
  have first: "stepTo False scriptedCPodes plainBase (Finite 2) (Finite 1.5) ?i
                 = Some (Returned ReachedScheduledEvent integ')"
    using ti by simp
  have firstj: "stepTo False scriptedCPodes plainBase (Finite 2) (Finite 1.5) ?j
                 = Some (Returned ReachedScheduledEvent jnteg')"
    using tj by simp
  from ti n1 n2 obtain status integ'' where
    s1: "stepTo False scriptedCPodes plainBase (Finite 1.6) (Finite 0) integ'
           = Some (Returned status integ'')"
    and s2: "cpodes integ'' = cpodes integ'"
    by (metis (no_types, lifting))
  have so: "statusOf (Some (Returned st x)) = Some st"
    and io: "integOf (Some (Returned st x)) = Some x"
    for st and x :: "(unit, (int \<times> real) list) CPodesIntegratorRep"
    by (simp_all add: statusOf_def integOf_def)
  have t2: "Time (advancedState integ') = Finite 1.5" and t3: "savedY integ' = [1.7]"
    using ti y1 by simp_all
  have e1: "statusOf (stepTo False scriptedCPodes plainBase (Finite 1.6) (Finite 0) integ')
              = Some ReachedReportTime"
    using s1 by (simp add: integ'_def integ1_def run_defs)
  have e2: "map_option cpodes (integOf (stepTo False scriptedCPodes plainBase (Finite 1.6) (Finite 0) integ'))
              = Some [(0, 2)]"
    using s1 s2 by (simp add: io) (simp add: integ'_def integ1_def run_defs)
  have e3: "map_option cpodes (passOfCall False scriptedCPodes plainBase (Finite 2) (Finite 0) integ' 1)
              = Some [(0, 2)]"
    by (simp add: integ'_def integ1_def run_defs One_nat_def)
  have e4: "map_option pendingReturnCode
              (passOfCall False scriptedCPodes plainBase (Finite 2) (Finite 0) integ' 1) = Some (- 1)"
    by (simp add: integ'_def integ1_def run_defs One_nat_def)
  have j1: "statusOf (stepTo False scriptedCPodes plainBase (Finite 2) (Finite 0) jnteg')
              = Some TimeHasAdvanced"
    by (simp add: jnteg'_def jnteg1_def run_defs notifyingAt_def)
  have j2: "map_option cpodes (integOf (stepTo False scriptedCPodes plainBase (Finite 2) (Finite 0) jnteg'))
              = Some [(0, 2)]"
    by (simp add: jnteg'_def jnteg1_def run_defs notifyingAt_def)
  from first firstj p f over t2 t3 n1 n2 n3 n4 m1 m2 e1 e2 e3 e4 j1 j2 show ?thesis
    by (simp add: so io andThen_def)
qed

text \<open>
  The next call as a whole may invoke the solver: in the spec's scenario B (report time
  2, event at 1.5, the solver lands at 1.7 and then at 2), the second call resumes at 1.7,
  finds no boundary, and takes the solver's next step to report at time 2.
\<close>

theorem next_call_steps_again_counterexample:
  "statusOf (stepTo False scriptedCPodes plainBase (Finite 2) (Finite 1.5)
               (integratorAt 1 [(0, 1.7), (0, 2)])) = Some ReachedScheduledEvent
   \<and> map_option (Time \<circ> advancedState)
       (integOf (stepTo False scriptedCPodes plainBase (Finite 2) (Finite 1.5)
                  (integratorAt 1 [(0, 1.7), (0, 2)]))) = Some (Finite 1.5)
   \<and> map_option previousTimeReturned
       (integOf (stepTo False scriptedCPodes plainBase (Finite 2) (Finite 1.5)
                  (integratorAt 1 [(0, 1.7), (0, 2)]))) = Some (Finite 1.7)
   \<and> map_option cpodes
       (integOf (stepTo False scriptedCPodes plainBase (Finite 2) (Finite 1.5)
                  (integratorAt 1 [(0, 1.7), (0, 2)]))) = Some [(0, 2)]
   \<and> statusOf (andThen (stepTo False scriptedCPodes plainBase (Finite 2) (Finite 1.5)
                          (integratorAt 1 [(0, 1.7), (0, 2)]))
                 (stepTo False scriptedCPodes plainBase (Finite 2) (Finite 0)))
     = Some ReachedReportTime
   \<and> map_option cpodes
       (integOf (andThen (stepTo False scriptedCPodes plainBase (Finite 2) (Finite 1.5)
                           (integratorAt 1 [(0, 1.7), (0, 2)]))
                  (stepTo False scriptedCPodes plainBase (Finite 2) (Finite 0))))
     = Some []
   \<and> map_option (Time \<circ> advancedState)
       (integOf (andThen (stepTo False scriptedCPodes plainBase (Finite 2) (Finite 1.5)
                           (integratorAt 1 [(0, 1.7), (0, 2)]))
                  (stepTo False scriptedCPodes plainBase (Finite 2) (Finite 0))))
     = Some (Finite 2)"
  by (simp add: run_defs andThen_def)

text \<open>
  Claim C10 (root-flag filtering), as amended. When a pass of the loop reaches the
  root-return branch (the result code is \<open>CPodes::RootReturn\<close>, it passes the error
  checks, neither the report time nor the scheduled event time is reached and the code
  is not \<open>CPodes::TstopReturn\<close>), the call returns \<open>ReachedEventTrigger\<close>. The trigger
  indices handed to \<open>findEventIds\<close> are, in increasing order and once each, exactly the
  indices below the number of triggers whose root-info flag is 1 (an index with any other
  flag, such as \<open>-1\<close>, is left out). The event set delivered holds the ids that
  \<open>findEventIds\<close> returns for them, each with event time \<open>tret\<close> and transition
  \<open>AnySignChange\<close>, over the interval from \<open>previousStartTime\<close> to \<open>tret\<close>.
\<close>

theorem root_flag_filtering:
  assumes pass: "passOfCall NDEBUG cp base reportTime scheduledEventTime integ k = Some integk"
      and adv: "advance cp base (min reportTime (effectiveEventTime scheduledEventTime))
                  (stepMode integ) integk = (res, tret, integ1)"
      and rootret: "res = RootReturn cp"
      and ok: "res \<noteq> TooMuchWork cp" "0 \<le> res"
      and noboundary: "\<not> (reportTime \<le> tret \<and> reportTime \<le> effectiveEventTime scheduledEventTime)"
                      "\<not> effectiveEventTime scheduledEventTime \<le> tret"
      and nostop: "res \<noteq> TstopReturn cp"
  shows "\<exists>integ' fired.
           stepTo NDEBUG cp base reportTime scheduledEventTime integ
             = Some (Returned ReachedEventTrigger integ')
         \<and> sorted fired \<and> distinct fired
         \<and> set fired = {int i | i. i < NEvents (advancedState integ1)
                                    \<and> getRootInfo cp (cpodes integ1) i = 1}
         \<and> triggeredEvents integ'
             = Some \<lparr>tLow = previousStartTime integ1, tHigh = tret,
                     eventIds = findEventIds base fired,
                     eventTimes = replicate (length (findEventIds base fired)) tret,
                     eventTransitions = replicate (length (findEventIds base fired)) AnySignChange\<rparr>"
proof -
  let ?e = "effectiveEventTime scheduledEventTime"
  let ?tMax = "min reportTime ?e"
  let ?integ2 = "interpolateIfNeeded cp base ?tMax tret integ1"
  let ?n = "NEvents (advancedState integ1)"
  let ?fired = "map int (filter (\<lambda>i. map (getRootInfo cp (cpodes integ1)) [0..<?n] ! i = 1) [0..<?n])"
  let ?ev = "triggeredAtRoot cp base tret ?integ2"
  let ?integ' = "?integ2\<lparr>triggeredEvents := Some ?ev,
                          stepCommunicationStatus := StepHasBeenReturnedWithEvent\<rparr>"
  have body: "loopBody cp base reportTime ?e ?tMax (stepMode integ) integk
              = Exit (Returned ReachedEventTrigger ?integ')"
    unfolding loopBody_unfold [OF adv] using rootret ok noboundary nostop
    by (simp add: decide_def Let_def)
  have ret: "stepTo NDEBUG cp base reportTime scheduledEventTime integ
               = Some (Returned ReachedEventTrigger ?integ')"
    by (rule stepTo_pass_Exit [OF pass body])
  have ev: "?ev = \<lparr>tLow = previousStartTime integ1, tHigh = tret,
                    eventIds = findEventIds base ?fired,
                    eventTimes = replicate (length (findEventIds base ?fired)) tret,
                    eventTransitions = replicate (length (findEventIds base ?fired)) AnySignChange\<rparr>"
    by (simp add: triggeredAtRoot_def Let_def interpolate_props map_replicate_const)
  have tr: "triggeredEvents ?integ'
      = Some \<lparr>tLow = previousStartTime integ1, tHigh = tret,
                eventIds = findEventIds base ?fired,
                eventTimes = replicate (length (findEventIds base ?fired)) tret,
                eventTransitions = replicate (length (findEventIds base ?fired)) AnySignChange\<rparr>"
    using ev by simp
  note fi = fired_indices [of "getRootInfo cp (cpodes integ1)" ?n]
  show ?thesis
    apply (rule exI [of _ ?integ'])
    apply (rule exI [of _ ?fired])
    apply (intro conjI)
        apply (rule ret)
       apply (rule fi(1))
      apply (rule fi(2))
     apply (rule fi(3))
    apply (rule tr)
    done
qed

theorem root_flag_filtering_witness:
  "passOfCall False scriptedCPodes plainBase (Finite 2) (Finite 0) (integratorAt 1 [(2, 1.5)]) 0
     = Some (integratorAt 1 [(2, 1.5)])
   \<and> fst (advance scriptedCPodes plainBase (Finite 2) Normal (integratorAt 1 [(2, 1.5)]))
     = RootReturn scriptedCPodes
   \<and> statusOf (stepTo False scriptedCPodes plainBase (Finite 2) (Finite 0) (integratorAt 1 [(2, 1.5)]))
     = Some ReachedEventTrigger
   \<and> Option.bind (integOf (stepTo False scriptedCPodes plainBase (Finite 2) (Finite 0)
                              (integratorAt 1 [(2, 1.5)]))) triggeredEvents
     = Some \<lparr>tLow = Finite 1, tHigh = Finite 1.5, eventIds = [0, 2],
             eventTimes = [Finite 1.5, Finite 1.5],
             eventTransitions = [AnySignChange, AnySignChange]\<rparr>"
proof -
  let ?i = "integratorAt 1 [(2, 1.5)]"
  define integ1 where "integ1 = snd (snd (advance scriptedCPodes plainBase (Finite 2) Normal ?i))"
  have p: "passOfCall False scriptedCPodes plainBase (Finite 2) (Finite 0) ?i 0 = Some ?i"
    by (simp add: run_defs)
  have a: "advance scriptedCPodes plainBase (min (Finite 2) (effectiveEventTime (Finite 0)))
             (stepMode ?i) ?i = (2, Finite 1.5, integ1)"
    by (simp add: integ1_def run_defs)
  have h: "2 = RootReturn scriptedCPodes" "2 \<noteq> TooMuchWork scriptedCPodes" "(0::int) \<le> 2"
    "\<not> (Finite 2 \<le> Finite 1.5 \<and> Finite 2 \<le> effectiveEventTime (Finite 0))"
    "\<not> effectiveEventTime (Finite 0) \<le> Finite 1.5"
    "2 \<noteq> TstopReturn scriptedCPodes"
    by (simp_all add: run_defs)
  have f: "fst (advance scriptedCPodes plainBase (Finite 2) Normal ?i) = RootReturn scriptedCPodes"
    by (simp add: run_defs)
  from root_flag_filtering [OF p a h]
  have st: "statusOf (stepTo False scriptedCPodes plainBase (Finite 2) (Finite 0) ?i)
              = Some ReachedEventTrigger"
    by (auto simp: statusOf_def)
  have ev: "Option.bind (integOf (stepTo False scriptedCPodes plainBase (Finite 2) (Finite 0) ?i))
              triggeredEvents
            = Some \<lparr>tLow = Finite 1, tHigh = Finite 1.5, eventIds = [0, 2],
                     eventTimes = [Finite 1.5, Finite 1.5],
                     eventTransitions = [AnySignChange, AnySignChange]\<rparr>"
    by (simp add: run_defs numeral_3_eq_3)
  from p f st ev show ?thesis
    by simp
qed

text \<open>
  The ids delivered are those that \<open>findEventIds\<close> returns, not the trigger indices: with
  an identification that maps trigger \<open>i\<close> to event \<open>i + 100\<close>, the triggers 0 and 2 fire
  and the event set holds 100 and 102.
\<close>

theorem remapped_event_ids_counterexample:
  "statusOf (stepTo False scriptedCPodes offsetBase (Finite 2) (Finite 0) (integratorAt 1 [(2, 1.5)]))
     = Some ReachedEventTrigger
   \<and> map_option eventIds
       (Option.bind (integOf (stepTo False scriptedCPodes offsetBase (Finite 2) (Finite 0)
                               (integratorAt 1 [(2, 1.5)]))) triggeredEvents)
     = Some [100, 102]
   \<and> map (getRootInfo scriptedCPodes []) [0, 1, 2] = [1, - 1, 1]"
  by (simp add: run_defs offsetBase_def numeral_3_eq_3)

section \<open>The Step Controller: time across calls\<close>

text \<open>
  Claim C7 (time monotonicity), as amended. Take a call of \<open>stepTo\<close> that returns a
  status, made on an integrator whose pending result is consistent, and in which every
  fresh solver step returns a time not earlier than the Advanced State's time it starts
  from. Then the returned time \<open>tret\<close> of the last pass is not earlier than the Advanced
  State's time before the call, and the Advanced State's time after the call is \<open>tret\<close>,
  except when the call rewinds to a scheduled event: then it is the scheduled event
  time, which is earlier than \<open>tret\<close> (and may be earlier than the time before the call).
  The pending result the call leaves is consistent again. When the call leaves the
  interpolated-state flag true (and did not end at the step limit), the Interpolated
  State's time is the ceiling, strictly before \<open>tret\<close> and not after the Advanced State's
  time (it equals it after a rewind).
\<close>

theorem advanced_time_over_a_call:
  assumes pass: "passOfCall NDEBUG cp base reportTime scheduledEventTime integ k = Some integk"
      and ceiling: "tMax = min reportTime (effectiveEventTime scheduledEventTime)"
      and adv: "advance cp base tMax (stepMode integ) integk = (res, tret, integ1)"
      and ret: "loopBody cp base reportTime (effectiveEventTime scheduledEventTime) tMax
                  (stepMode integ) integk = Exit (Returned status integ')"
      and inv: "pendingConsistent integ"
      and solver: "\<forall>j integj. j \<le> k
             \<longrightarrow> passOfCall NDEBUG cp base reportTime scheduledEventTime integ j = Some integj
             \<longrightarrow> pendingReturnCode integj = - 1
             \<longrightarrow> Time (advancedState integj)
                   \<le> fst (snd (step cp (cpodes integj) tMax (stepMode integ)))"
  shows "stepTo NDEBUG cp base reportTime scheduledEventTime integ = Some (Returned status integ')
       \<and> pendingConsistent integ'
       \<and> Time (advancedState integ) \<le> tret
       \<and> (Time (advancedState integ') = tret
          \<or> (status = ReachedScheduledEvent
              \<and> Time (advancedState integ') = scheduledEventTime \<and> scheduledEventTime < tret))
       \<and> (useInterpolatedState integ' \<and> status \<noteq> ReachedStepLimit
            \<longrightarrow> Time (interpolatedState integ') = tMax \<and> tMax < tret
              \<and> Time (interpolatedState integ') \<le> Time (advancedState integ'))"
proof -
  let ?e = "effectiveEventTime scheduledEventTime"
  from pass have ok: "NDEBUG \<or> stepTo_asserts integ reportTime scheduledEventTime"
    and nostart: "\<not> startOfContinuousInterval integ"
    and la: "loopAfter cp base reportTime ?e tMax (stepMode integ) k integ = Some integk"
    by (auto simp: passOfCall_def ceiling split: if_splits)
  have pc: "passOfCall NDEBUG cp base reportTime scheduledEventTime integ j
            = loopAfter cp base reportTime ?e tMax (stepMode integ) j integ" for j
    using ok nostart by (auto simp: passOfCall_def ceiling)
  have solver': "\<forall>j integj. j < k
             \<longrightarrow> loopAfter cp base reportTime ?e tMax (stepMode integ) j integ = Some integj
             \<longrightarrow> pendingReturnCode integj = - 1
             \<longrightarrow> Time (advancedState integj)
                   \<le> fst (snd (step cp (cpodes integj) tMax (stepMode integ)))"
  proof (intro allI impI)
    fix j integj
    assume "j < k"
      and "loopAfter cp base reportTime ?e tMax (stepMode integ) j integ = Some integj"
      and "pendingReturnCode integj = - 1"
    then have "j \<le> k"
      and "passOfCall NDEBUG cp base reportTime scheduledEventTime integ j = Some integj"
      and "pendingReturnCode integj = - 1"
      by (simp_all add: pc)
    with solver
    show "Time (advancedState integj) \<le> fst (snd (step cp (cpodes integj) tMax (stepMode integ)))"
      by blast
  qed
  from loopAfter_mono [OF la inv solver']
  have upto: "Time (advancedState integ) \<le> Time (advancedState integk)"
    and invk: "pendingConsistent integk" by simp_all
  have lastsolver: "pendingReturnCode integk = - 1
      \<longrightarrow> Time (advancedState integk) \<le> fst (snd (step cp (cpodes integk) tMax (stepMode integ)))"
    using solver pass by blast
  from advance_time_mono [OF adv invk lastsolver] upto
  have c3: "Time (advancedState integ) \<le> tret" by simp
  have after: "afterPass (loopBody cp base reportTime ?e tMax (stepMode integ) integk) = Some integ'"
    using ret by (simp add: afterPass_def)
  have c1: "stepTo NDEBUG cp base reportTime scheduledEventTime integ = Some (Returned status integ')"
    using stepTo_pass_Exit [OF pass] ret ceiling by simp
  have c2: "pendingConsistent integ'"
    by (rule pass_consistent [OF adv after])
  have rewound: "?e = scheduledEventTime" if "?e < tret"
    using that by (cases tret) (auto simp: effectiveEventTime_def split: if_splits)
  have c4: "Time (advancedState integ') = tret
          \<or> (status = ReachedScheduledEvent
              \<and> Time (advancedState integ') = scheduledEventTime \<and> scheduledEventTime < tret)"
    using pass_time(2) [OF adv after] ret rewound by auto
  have c5: "Time (interpolatedState integ') = tMax \<and> tMax < tret
              \<and> Time (interpolatedState integ') \<le> Time (advancedState integ')"
    if flag: "useInterpolatedState integ'" and nolimit: "status \<noteq> ReachedStepLimit"
  proof -
    from ret nolimit have ok2: "res \<noteq> TooMuchWork cp" "\<not> res < 0"
      unfolding loopBody_unfold [OF adv] by (auto split: if_splits)
    let ?integ2 = "interpolateIfNeeded cp base tMax tret integ1"
    from ret ok2 have dec: "decide cp base reportTime ?e res tret ?integ2 = Exit (Returned status integ')"
      unfolding loopBody_unfold [OF adv] by simp
    then have after2: "afterPass (decide cp base reportTime ?e res tret ?integ2) = Some integ'"
      by (simp add: afterPass_def)
    from decide_keeps_interp [OF after2] flag have lt: "tMax < tret"
      by (simp add: interpolate_props)
    from decide_keeps_interp [OF after2] lt have it: "Time (interpolatedState integ') = tMax"
      by (simp add: interpolate_props)
    have "tMax \<le> Time (advancedState integ')"
    proof (cases "Time (advancedState integ') = tret")
      case True
      with lt show ?thesis by simp
    next
      case False
      with c4 have ev: "status = ReachedScheduledEvent" "Time (advancedState integ') = scheduledEventTime"
        "scheduledEventTime < tret" by auto
      from dec ev(1) have "?e \<le> tret" "\<not> (reportTime \<le> tret \<and> reportTime \<le> ?e)"
        by (auto simp: decide_def Let_def split: if_splits)
      then have "tMax = ?e" by (auto simp: ceiling min_def)
      moreover from c4 False pass_time(2) [OF adv after] have "Time (advancedState integ') = ?e"
        by auto
      ultimately show ?thesis by simp
    qed
    with it lt show ?thesis by simp
  qed
  from c1 c2 c3 c4 c5 show ?thesis by blast
qed

theorem advanced_time_over_a_call_witness:
  "passOfCall False scriptedCPodes plainBase (Finite 2) (Finite 1.5) (integratorAt 1 [(0, 1.7)]) 0
     = Some (integratorAt 1 [(0, 1.7)])
   \<and> pendingConsistent (integratorAt 1 [(0, 1.7)])
   \<and> Time (advancedState (integratorAt 1 [(0, 1.7)]))
       \<le> fst (snd (step scriptedCPodes [(0, 1.7)] (Finite 1.5) Normal))
   \<and> statusOf (stepTo False scriptedCPodes plainBase (Finite 2) (Finite 1.5)
                 (integratorAt 1 [(0, 1.7)]))
     = Some ReachedScheduledEvent
   \<and> map_option pendingConsistent
       (integOf (stepTo False scriptedCPodes plainBase (Finite 2) (Finite 1.5)
                  (integratorAt 1 [(0, 1.7)])))
     = Some True"
proof -
  let ?i = "integratorAt 1 [(0, 1.7)]"
  define integ1 where "integ1 = snd (snd (advance scriptedCPodes plainBase (Finite 1.5) Normal ?i))"
  define integ' where "integ' = integ1
      \<lparr>advancedState := snapshotAt 1.5, interpolatedState := snapshotAt 1.5,
        useInterpolatedState := True, savedY := [1.7], pendingReturnCode := 0,
        stepCommunicationStatus := StepHasBeenReturnedWithEvent\<rparr>"
  have p: "passOfCall False scriptedCPodes plainBase (Finite 2) (Finite 1.5) ?i 0 = Some ?i"
    by (simp add: run_defs)
  have c: "Finite 1.5 = min (Finite 2) (effectiveEventTime (Finite 1.5))"
    by (simp add: run_defs)
  have a: "advance scriptedCPodes plainBase (Finite 1.5) (stepMode ?i) ?i = (0, Finite 1.7, integ1)"
    by (simp add: integ1_def run_defs)
  have r: "loopBody scriptedCPodes plainBase (Finite 2) (effectiveEventTime (Finite 1.5))
             (Finite 1.5) (stepMode ?i) ?i
           = Exit (Returned ReachedScheduledEvent integ')"
    by (simp add: integ'_def integ1_def run_defs)
  have inv: "pendingConsistent ?i"
    by (simp add: pendingConsistent_def integratorAt_def)
  have first: "Time (advancedState ?i) \<le> fst (snd (step scriptedCPodes [(0, 1.7)] (Finite 1.5) Normal))"
    by (simp add: run_defs)
  have solver: "\<forall>j integj. j \<le> 0
           \<longrightarrow> passOfCall False scriptedCPodes plainBase (Finite 2) (Finite 1.5) ?i j = Some integj
           \<longrightarrow> pendingReturnCode integj = - 1
           \<longrightarrow> Time (advancedState integj)
                 \<le> fst (snd (step scriptedCPodes (cpodes integj) (Finite 1.5) (stepMode ?i)))"
  proof (intro allI impI)
    fix j integj
    assume "j \<le> (0::nat)"
      and "passOfCall False scriptedCPodes plainBase (Finite 2) (Finite 1.5) ?i j = Some integj"
    with p have "integj = ?i" by simp
    then show "Time (advancedState integj)
               \<le> fst (snd (step scriptedCPodes (cpodes integj) (Finite 1.5) (stepMode ?i)))"
      by (simp add: run_defs)
  qed
  from advanced_time_over_a_call [OF p c a r inv solver] p inv first show ?thesis
    by (simp add: statusOf_def integOf_def)
qed

text \<open>
  The Advanced State's time can go back from one call to the next: a call that reports
  at 1.5 leaves the Advanced State at the solver's time 1.7; the next call, with an event
  scheduled at 1.6, rewinds it to 1.6. Both calls satisfy the assertions of \<open>stepTo\<close>.
  And the Interpolated State's time need not be after the time the solver step started
  from: with a report time equal to the current time 1, the Interpolated State is built
  at time 1, which is \<open>previousStartTime\<close>.
\<close>

theorem advanced_time_decreases_counterexample:
  "statusOf (stepTo False scriptedCPodes plainBase (Finite 1.5) (Finite 0)
               (integratorAt 1 [(0, 1.7)])) = Some ReachedReportTime
   \<and> map_option (Time \<circ> advancedState)
        (integOf (stepTo False scriptedCPodes plainBase (Finite 1.5) (Finite 0)
               (integratorAt 1 [(0, 1.7)]))) = Some (Finite 1.7)
   \<and> statusOf (andThen (stepTo False scriptedCPodes plainBase (Finite 1.5) (Finite 0)
                          (integratorAt 1 [(0, 1.7)]))
                 (stepTo False scriptedCPodes plainBase (Finite 2) (Finite 1.6))) = Some ReachedScheduledEvent
   \<and> map_option (Time \<circ> advancedState)
        (integOf (andThen (stepTo False scriptedCPodes plainBase (Finite 1.5) (Finite 0)
                          (integratorAt 1 [(0, 1.7)]))
                 (stepTo False scriptedCPodes plainBase (Finite 2) (Finite 1.6)))) = Some (Finite 1.6)
   \<and> Finite 1.6 < Finite 1.7
   \<and> statusOf (stepTo False scriptedCPodes plainBase (Finite 1) (Finite 0)
               (integratorAt 1 [(0, 1.7)])) = Some ReachedReportTime
   \<and> map_option useInterpolatedState
        (integOf (stepTo False scriptedCPodes plainBase (Finite 1) (Finite 0)
               (integratorAt 1 [(0, 1.7)]))) = Some True
   \<and> map_option (Time \<circ> interpolatedState)
        (integOf (stepTo False scriptedCPodes plainBase (Finite 1) (Finite 0)
               (integratorAt 1 [(0, 1.7)]))) = Some (Finite 1)
   \<and> map_option previousStartTime
        (integOf (stepTo False scriptedCPodes plainBase (Finite 1) (Finite 0)
               (integratorAt 1 [(0, 1.7)]))) = Some (Finite 1)"
  by (simp add: run_defs andThen_def)

end
